theory Spec2Isabelle
  imports Main "HOL-Library.AList"
begin

section \<open>Replika: data model\<close>

text \<open>
  The custom resource of \<^verbatim>\<open>api/v1alpha1/replika_types.go\<close>. Go structs are records,
  field for field; \<^verbatim>\<open>metav1.ObjectMeta\<close> is reduced to the fields the controller
  reads or writes (name, namespace, deletion timestamp, finalizers).
\<close>

record SynchronizationSpec =
  Time :: string

record ReplikaTargetNamespacesSpec =
  ReplicateIn :: "string list"
  MatchAll :: bool
  ExcludeFrom :: "string list"

record ReplikaTargetSpec =
  Namespaces :: ReplikaTargetNamespacesSpec

record ReplikaSourceSpec =
  Group :: string
  Version :: string
  Kind :: string
  Name :: string
  Namespace :: string

record ReplikaSpec =
  Synchronization :: SynchronizationSpec
  Source :: ReplikaSourceSpec
  Target :: ReplikaTargetSpec

datatype ConditionStatus = ConditionTrue | ConditionFalse | ConditionUnknown

text \<open>\<^verbatim>\<open>metav1.Condition\<close>; a \<^verbatim>\<open>metav1.Time\<close> is a natural number of clock ticks.\<close>

record Condition =
  Type :: string
  Status :: ConditionStatus
  LastTransitionTime :: nat
  Reason :: string
  Message :: string

record ReplikaStatus =
  Conditions :: "Condition list"

record Replika =
  ObjectName :: string
  ObjectNamespace :: string
  DeletionTimestamp :: "nat option"
  Finalizers :: "string list"
  Spec :: ReplikaSpec
  ReplikaStatus :: ReplikaStatus

text \<open>
  Modelled from the spec: the helper \<^verbatim>\<open>NewErrorf\<close> and the message constants
  \<^verbatim>\<open>namespaceFormatError\<close>, \<^verbatim>\<open>sourceAndTargetSameNamespaceError\<close> and
  \<^verbatim>\<open>parseSyncTimeError\<close> are used by \<^verbatim>\<open>replika_sync.go\<close> but declared in a file
  that is not part of the sources. The spec calls them the format error, the
  source-equals-target error and the parse failure; each is a constructor that carries
  the argument \<^verbatim>\<open>NewErrorf\<close> formats into the message. The remaining constructors are
  the errors of the cluster API.
\<close>

datatype error =
  NamespaceFormatError string
  | SourceAndTargetSameNamespaceError string
  | ParseSyncTimeError string
  | NotFound
  | AlreadyExists
  | ApiError string

section \<open>Unstructured objects\<close>

text \<open>
  A JSON value as far as a merge patch tells values apart: \<^verbatim>\<open>null\<close>, an object as the
  list of its members, and any other value (string, number, boolean, array) in
  serialised form.
\<close>

datatype json = JNull | JValue string | JObject "(string \<times> json) list"

text \<open>
  \<^verbatim>\<open>unstructured.Unstructured\<close> is a JSON object. The record has one field for each
  part of it the controller touches through the accessors of the library: the
  top-level \<^verbatim>\<open>apiVersion\<close>/\<^verbatim>\<open>kind\<close> (group, version, kind), the entries of the
  \<^verbatim>\<open>metadata\<close> subtree, the \<^verbatim>\<open>status\<close> subtree, and every other top-level field
  (\<^verbatim>\<open>spec\<close>, \<^verbatim>\<open>data\<close>, ...) as the payload. A missing string is the empty string, a
  missing map the empty map, as the getters return them.
\<close>

type_synonym GroupVersionKind = "string \<times> string \<times> string"

record Unstructured =
  GVK :: GroupVersionKind
  MetaName :: string
  MetaNamespace :: string
  MetaUID :: string
  MetaAnnotations :: "string \<rightharpoonup> string"
  MetaLabels :: "string \<rightharpoonup> string"
  MetaOther :: "string \<rightharpoonup> json"
  StatusField :: "json option"
  Payload :: "string \<rightharpoonup> json"

section \<open>The cluster behind the client\<close>

text \<open>
  The controller talks to the API server through \<^verbatim>\<open>client.Client\<close>. The server is a
  state: the namespaces, the stored objects, the stored Replikas. Every request is
  appended to \<open>Calls\<close>, so that "was attempted" is a statement about that trace.
  \<open>Fault n k\<close> lets the environment reject the request \<open>k\<close> issued as the \<open>n\<close>-th
  call with an error of its choice (network, admission, RBAC), whatever the state.
\<close>

datatype call =
  ListNamespacesCall
  | GetCall GroupVersionKind string string
  | CreateCall GroupVersionKind string string
  | PatchCall GroupVersionKind string string
  | DeleteCall GroupVersionKind string string
  | ListCall GroupVersionKind string string
  | GetReplikaCall string string
  | UpdateReplikaCall string string
  | StatusUpdateCall string string

record Cluster =
  ClusterNamespaces :: "string list"
  ClusterObjects :: "Unstructured list"
  ClusterReplikas :: "(string \<times> string) \<rightharpoonup> Replika"
  Fault :: "nat \<Rightarrow> call \<Rightarrow> error option"
  Calls :: "call list"

definition request :: "Cluster \<Rightarrow> call \<Rightarrow> error option \<times> Cluster" where
  "request c k = (Fault c (length (Calls c)) k, c\<lparr>Calls := Calls c @ [k]\<rparr>)"

text \<open>\<^verbatim>\<open>r.List(ctx, namespaceList)\<close>: the names of all namespaces.\<close>

definition ListNamespaces :: "Cluster \<Rightarrow> (string list \<times> error option) \<times> Cluster" where
  "ListNamespaces c =
     (case request c ListNamespacesCall of
        (Some e, c') \<Rightarrow> (([], Some e), c')
      | (None, c') \<Rightarrow> ((ClusterNamespaces c', None), c'))"

section \<open>Constants of the controller\<close>

text \<open>\<^verbatim>\<open>defaultSynchronizationTime = 15 * time.Second\<close>, in nanoseconds as \<^verbatim>\<open>time.Duration\<close>.\<close>

definition defaultSynchronizationTime :: int where
  "defaultSynchronizationTime = 15 * 1000000000"

definition defaultTargetNamespace :: string where
  "defaultTargetNamespace = ''default''"

definition resourceReplikaLabelPartOfKey :: string where
  "resourceReplikaLabelPartOfKey = ''replika.prosimcorp.com/part-of''"

definition resourceReplikaLabelCreatedKey :: string where
  "resourceReplikaLabelCreatedKey = ''replika.prosimcorp.com/created-by''"

definition resourceReplikaLabelCreatedValue :: string where
  "resourceReplikaLabelCreatedValue = ''replika-controller''"

definition replikaFinalizer :: string where
  "replikaFinalizer = ''replika.prosimcorp.com/finalizer''"

section \<open>GetNamespaces\<close>

text \<open>
  \<^verbatim>\<open>namespaceRegularExpression = "^[a-z0-9]([-a-z0-9]*[a-z0-9])?$"\<close>, matched against
  the bytes of the name: a first byte of \<^verbatim>\<open>[a-z0-9]\<close>, then optionally any number of
  bytes of \<^verbatim>\<open>[-a-z0-9]\<close> closed by one of \<^verbatim>\<open>[a-z0-9]\<close>, and nothing else. The constant
  expression always compiles, so the error branch of \<^verbatim>\<open>regexp.Compile\<close> is dead.
\<close>

definition lowerAlnum :: "char \<Rightarrow> bool" where
  "lowerAlnum ch =
     (let n = (of_char ch :: nat) in (97 \<le> n \<and> n \<le> 122) \<or> (48 \<le> n \<and> n \<le> 57))"

definition dashLowerAlnum :: "char \<Rightarrow> bool" where
  "dashLowerAlnum ch = (ch = CHR ''-'' \<or> lowerAlnum ch)"

fun expressionMatch :: "string \<Rightarrow> bool" where
  "expressionMatch [] = False"
| "expressionMatch (ch # rest) =
     (lowerAlnum ch \<and>
      (rest = [] \<or> (list_all dashLowerAlnum (butlast rest) \<and> lowerAlnum (last rest))))"

text \<open>
  The inner loop of the \<^verbatim>\<open>matchAll\<close> branch, over \<^verbatim>\<open>ExcludeFrom\<close>, for one namespace
  \<open>ns\<close>: \<open>Inl e\<close> is the \<^verbatim>\<open>return namespaces, err\<close> on a badly formatted entry,
  \<open>Inr True\<close> the \<^verbatim>\<open>continue namespaceLoop\<close>, \<open>Inr False\<close> the end of the loop.
\<close>

fun excludedLoop :: "string \<Rightarrow> string list \<Rightarrow> error + bool" where
  "excludedLoop ns [] = Inr False"
| "excludedLoop ns (excludedNs # rest) =
     (if \<not> expressionMatch excludedNs then Inl (NamespaceFormatError excludedNs)
      else if excludedNs = ns then Inr True
      else excludedLoop ns rest)"

text \<open>The outer loop, over the listed namespaces; \<open>namespaces\<close> is the list built so far.\<close>

fun namespaceLoop ::
  "Replika \<Rightarrow> string list \<Rightarrow> string list \<Rightarrow> string list \<times> error option" where
  "namespaceLoop replika [] namespaces = (namespaces, None)"
| "namespaceLoop replika (ns # items) namespaces =
     (if ns = Namespace (Source (Spec replika)) then namespaceLoop replika items namespaces
      else
        (case excludedLoop ns (ExcludeFrom (Namespaces (Target (Spec replika)))) of
           Inl e \<Rightarrow> (namespaces, Some e)
         | Inr True \<Rightarrow> namespaceLoop replika items namespaces
         | Inr False \<Rightarrow> namespaceLoop replika items (namespaces @ [ns])))"

text \<open>
  The loop over \<^verbatim>\<open>ReplicateIn\<close>. An entry equal to the source namespace sets \<open>err\<close>
  and the loop goes on: the entry is still checked against the expression and appended.
\<close>

fun replicateInLoop ::
  "Replika \<Rightarrow> string list \<Rightarrow> string list \<Rightarrow> error option \<Rightarrow> string list \<times> error option" where
  "replicateInLoop replika [] namespaces err = (namespaces, err)"
| "replicateInLoop replika (v # rest) namespaces err =
     (let err' = (if v = Namespace (Source (Spec replika))
                  then Some (SourceAndTargetSameNamespaceError v) else err)
      in if \<not> expressionMatch v then (namespaces, Some (NamespaceFormatError v))
         else replicateInLoop replika rest (namespaces @ [v]) err')"

text \<open>
  \<^verbatim>\<open>GetNamespaces\<close> of \<^verbatim>\<open>replika_sync.go\<close>. As in Go, the result is the pair of both
  return values: an error does not replace the list built so far.
\<close>

definition GetNamespaces :: "Cluster \<Rightarrow> Replika \<Rightarrow> (string list \<times> error option) \<times> Cluster" where
  "GetNamespaces c replika =
     (if MatchAll (Namespaces (Target (Spec replika))) then
        (case ListNamespaces c of
           ((items, Some e), c') \<Rightarrow> (([], Some e), c')
         | ((items, None), c') \<Rightarrow> (namespaceLoop replika items [], c'))
      else if length (ReplicateIn (Namespaces (Target (Spec replika)))) = 0 then
        (if Namespace (Source (Spec replika)) \<noteq> defaultTargetNamespace
         then (([defaultTargetNamespace], None), c)
         else (([], Some (SourceAndTargetSameNamespaceError defaultTargetNamespace)), c))
      else
        (replicateInLoop replika (ReplicateIn (Namespaces (Target (Spec replika)))) [] None, c))"

section \<open>Conditions\<close>

text \<open>
  \<^verbatim>\<open>replika_status.go\<close>. \<^verbatim>\<open>metav1.Now()\<close> is a reading of the clock; the reading
  is an argument \<open>now\<close> of every function that takes one. The functions that build a
  condition and store it at once (\<^verbatim>\<open>BuildTargets\<close>, \<^verbatim>\<open>UpdateTargets\<close>, \<^verbatim>\<open>Reconcile\<close>)
  pass the same reading to both.
\<close>

definition ConditionTypeSourceSynced :: string where
  "ConditionTypeSourceSynced = ''SourceSynced''"

definition ConditionReasonSourceNotFound :: string where
  "ConditionReasonSourceNotFound = ''SourceNotFound''"

definition ConditionReasonSourceNotFoundMessage :: string where
  "ConditionReasonSourceNotFoundMessage = ''Source resource was not found''"

definition ConditionReasonTargetNamespaceNotFound :: string where
  "ConditionReasonTargetNamespaceNotFound = ''TargetNamespaceNotFound''"

definition ConditionReasonTargetNamespaceNotFoundMessage :: string where
  "ConditionReasonTargetNamespaceNotFoundMessage = ''A target namespace was not found''"

definition ConditionReasonSourceReplicationFailed :: string where
  "ConditionReasonSourceReplicationFailed = ''SourceReplicationFailed''"

definition ConditionReasonSourceReplicationFailedMessage :: string where
  "ConditionReasonSourceReplicationFailedMessage = ''Error replicating the source on targets''"

definition ConditionReasonSourceSynced :: string where
  "ConditionReasonSourceSynced = ''SourceSynced''"

definition ConditionReasonSourceSyncedMessage :: string where
  "ConditionReasonSourceSyncedMessage = ''Source was successfully synchronized''"

definition NewReplikaCondition ::
  "nat \<Rightarrow> string \<Rightarrow> ConditionStatus \<Rightarrow> string \<Rightarrow> string \<Rightarrow> Condition" where
  "NewReplikaCondition now condType status reason message =
     \<lparr>Type = condType, Status = status, LastTransitionTime = now,
      Reason = reason, Message = message\<rparr>"

text \<open>
  \<^verbatim>\<open>GetReplikaCondition\<close> returns a pointer into \<^verbatim>\<open>replika.Status.Conditions\<close>, or nil:
  here the index of the first condition of the type, or \<open>None\<close>.
\<close>

fun conditionIndex :: "Condition list \<Rightarrow> string \<Rightarrow> nat option" where
  "conditionIndex [] condType = None"
| "conditionIndex (v # rest) condType =
     (if Type v = condType then Some 0 else map_option Suc (conditionIndex rest condType))"

definition GetReplikaCondition :: "Replika \<Rightarrow> string \<Rightarrow> nat option" where
  "GetReplikaCondition replika condType =
     conditionIndex (Conditions (ReplikaStatus replika)) condType"

text \<open>
  \<^verbatim>\<open>UpdateReplikaCondition\<close>: appends the condition when its type is new; otherwise
  overwrites status, reason and message of the stored one and sets its
  \<^verbatim>\<open>LastTransitionTime\<close> to \<^verbatim>\<open>metav1.Now()\<close>.
\<close>

definition UpdateReplikaCondition :: "nat \<Rightarrow> Replika \<Rightarrow> Condition \<Rightarrow> Replika" where
  "UpdateReplikaCondition now replika condition =
     (let conds = Conditions (ReplikaStatus replika) in
      case GetReplikaCondition replika (Type condition) of
        None \<Rightarrow> replika\<lparr>ReplikaStatus := \<lparr>Conditions = conds @ [condition]\<rparr>\<rparr>
      | Some i \<Rightarrow>
          replika\<lparr>ReplikaStatus :=
            \<lparr>Conditions = conds[i := (conds ! i)\<lparr>Status := Status condition,
                                                 Reason := Reason condition,
                                                 Message := Message condition,
                                                 LastTransitionTime := now\<rparr>]\<rparr>\<rparr>)"

subsection \<open>The earlier condition setter\<close>

text \<open>
  \<^verbatim>\<open>SetReplikaCondition\<close> with its helpers, from the first draft of the status file.
  Its \<^verbatim>\<open>GetReplikaCondition\<close> returns a pointer to a copy of the condition, and
  \<^verbatim>\<open>updateReplikaCondition\<close> has only empty branches.
\<close>

fun GetReplikaConditionCopy :: "Condition list \<Rightarrow> string \<Rightarrow> Condition option" where
  "GetReplikaConditionCopy [] condType = None"
| "GetReplikaConditionCopy (c # rest) condType =
     (if Type c = condType then Some c else GetReplikaConditionCopy rest condType)"

fun filterOutCondition :: "Condition list \<Rightarrow> string \<Rightarrow> Condition list" where
  "filterOutCondition [] condType = []"
| "filterOutCondition (c # rest) condType =
     (if Type c = condType then filterOutCondition rest condType
      else c # filterOutCondition rest condType)"

definition SetReplikaCondition :: "Replika \<Rightarrow> Condition \<Rightarrow> Replika" where
  "SetReplikaCondition replika condition =
     (let conds = Conditions (ReplikaStatus replika);
          currentCond = GetReplikaConditionCopy conds (Type condition)
      in case currentCond of
           None \<Rightarrow>
             replika\<lparr>ReplikaStatus :=
               \<lparr>Conditions = filterOutCondition conds (Type condition) @ [condition]\<rparr>\<rparr>
         | Some cur \<Rightarrow>
             if Status cur = Status condition \<and> Reason cur = Reason condition
                \<and> Message cur = Message condition
             then replika
             else
               (let condition' =
                      (if Status cur = Status condition
                       then condition\<lparr>LastTransitionTime := LastTransitionTime cur\<rparr>
                       else condition)
                in replika\<lparr>ReplikaStatus :=
                     \<lparr>Conditions =
                        filterOutCondition conds (Type condition) @ [condition']\<rparr>\<rparr>))"

section \<open>Requests of the client\<close>

definition emptyUnstructured :: Unstructured where
  "emptyUnstructured =
     \<lparr>GVK = ('''', '''', ''''), MetaName = '''', MetaNamespace = '''', MetaUID = '''',
      MetaAnnotations = Map.empty, MetaLabels = Map.empty, MetaOther = Map.empty,
      StatusField = None, Payload = Map.empty\<rparr>"

definition sameObject :: "GroupVersionKind \<Rightarrow> string \<Rightarrow> string \<Rightarrow> Unstructured \<Rightarrow> bool" where
  "sameObject gvk ns nm obj = (GVK obj = gvk \<and> MetaNamespace obj = ns \<and> MetaName obj = nm)"

text \<open>
  \<^verbatim>\<open>r.Get(ctx, key, obj)\<close> for an unstructured object: fills \<open>obj\<close> with the stored
  object, or leaves it as it is and returns an error.
\<close>

definition Get ::
  "Cluster \<Rightarrow> string \<Rightarrow> string \<Rightarrow> Unstructured \<Rightarrow> (Unstructured \<times> error option) \<times> Cluster" where
  "Get c ns nm obj =
     (case request c (GetCall (GVK obj) ns nm) of
        (Some e, c') \<Rightarrow> ((obj, Some e), c')
      | (None, c') \<Rightarrow>
          (case find (sameObject (GVK obj) ns nm) (ClusterObjects c') of
             None \<Rightarrow> ((obj, Some NotFound), c')
           | Some stored \<Rightarrow> ((stored, None), c')))"

text \<open>
  \<^verbatim>\<open>r.Create\<close>: the server refuses an object in a namespace that does not exist and
  an object that is already stored.
\<close>

definition Create :: "Cluster \<Rightarrow> Unstructured \<Rightarrow> error option \<times> Cluster" where
  "Create c obj =
     (case request c (CreateCall (GVK obj) (MetaNamespace obj) (MetaName obj)) of
        (Some e, c') \<Rightarrow> (Some e, c')
      | (None, c') \<Rightarrow>
          if MetaNamespace obj \<notin> set (ClusterNamespaces c') then (Some NotFound, c')
          else if list_ex (sameObject (GVK obj) (MetaNamespace obj) (MetaName obj))
                    (ClusterObjects c')
          then (Some AlreadyExists, c')
          else (None, c'\<lparr>ClusterObjects := ClusterObjects c' @ [obj]\<rparr>))"

text \<open>
  \<^verbatim>\<open>client.RawPatch(types.MergePatchType, patch)\<close>: the server applies the JSON merge patch
  (RFC 7386). A member of the patch that is \<^verbatim>\<open>null\<close> removes the member of the target; a
  member that is an object is merged into the member of the target, member by member;
  any other member replaces it. \<open>mergeMembers\<close> is the loop over the members of the
  patch, \<open>mergeFields\<close> the same step on the fields of the record.
\<close>

fun mergeJSON :: "json \<Rightarrow> json \<Rightarrow> json"
  and mergeMembers ::
    "(string \<times> json) list \<Rightarrow> (string \<times> json) list \<Rightarrow> (string \<times> json) list" where
  "mergeJSON target (JObject patch) =
     JObject (mergeMembers (case target of JObject members \<Rightarrow> members | _ \<Rightarrow> []) patch)"
| "mergeJSON target JNull = JNull"
| "mergeJSON target (JValue v) = JValue v"
| "mergeMembers members [] = members"
| "mergeMembers members ((name, value) # patch) =
     mergeMembers
       (case value of
          JNull \<Rightarrow> AList.delete name members
        | _ \<Rightarrow> AList.update name
                 (mergeJSON (case map_of members name of Some t \<Rightarrow> t | None \<Rightarrow> JNull) value)
                 members)
       patch"

definition mergeFields ::
  "(string \<rightharpoonup> json) \<Rightarrow> (string \<rightharpoonup> json) \<Rightarrow> (string \<rightharpoonup> json)" where
  "mergeFields stored patch =
     (\<lambda>name. case patch name of
               None \<Rightarrow> stored name
             | Some JNull \<Rightarrow> None
             | Some value \<Rightarrow>
                 Some (mergeJSON (case stored name of Some t \<Rightarrow> t | None \<Rightarrow> JNull) value))"

text \<open>
  The patch is the whole manifest. Name, namespace, group, version and kind are those of
  the stored object the request addresses. Annotations and labels are objects of
  strings, merged member by member; a manifest without UID leaves the stored one.
\<close>

definition mergePatch :: "Unstructured \<Rightarrow> Unstructured \<Rightarrow> Unstructured" where
  "mergePatch stored patch =
     stored\<lparr>MetaUID := (if MetaUID patch = [] then MetaUID stored else MetaUID patch),
            MetaAnnotations := MetaAnnotations stored ++ MetaAnnotations patch,
            MetaLabels := MetaLabels stored ++ MetaLabels patch,
            MetaOther := mergeFields (MetaOther stored) (MetaOther patch),
            StatusField :=
              (case StatusField patch of
                 None \<Rightarrow> StatusField stored
               | Some JNull \<Rightarrow> None
               | Some st \<Rightarrow>
                   Some (mergeJSON (case StatusField stored of Some t \<Rightarrow> t | None \<Rightarrow> JNull)
                           st)),
            Payload := mergeFields (Payload stored) (Payload patch)\<rparr>"

definition Patch :: "Cluster \<Rightarrow> Unstructured \<Rightarrow> error option \<times> Cluster" where
  "Patch c obj =
     (case request c (PatchCall (GVK obj) (MetaNamespace obj) (MetaName obj)) of
        (Some e, c') \<Rightarrow> (Some e, c')
      | (None, c') \<Rightarrow>
          if list_ex (sameObject (GVK obj) (MetaNamespace obj) (MetaName obj))
               (ClusterObjects c')
          then (None, c'\<lparr>ClusterObjects :=
                  map (\<lambda>stored. if sameObject (GVK obj) (MetaNamespace obj) (MetaName obj) stored
                                 then mergePatch stored obj else stored)
                      (ClusterObjects c')\<rparr>)
          else (Some NotFound, c'))"

definition Delete :: "Cluster \<Rightarrow> Unstructured \<Rightarrow> error option \<times> Cluster" where
  "Delete c obj =
     (case request c (DeleteCall (GVK obj) (MetaNamespace obj) (MetaName obj)) of
        (Some e, c') \<Rightarrow> (Some e, c')
      | (None, c') \<Rightarrow>
          if list_ex (sameObject (GVK obj) (MetaNamespace obj) (MetaName obj))
               (ClusterObjects c')
          then (None, c'\<lparr>ClusterObjects :=
                  filter (\<lambda>stored. \<not> sameObject (GVK obj) (MetaNamespace obj) (MetaName obj) stored)
                         (ClusterObjects c')\<rparr>)
          else (Some NotFound, c'))"

text \<open>
  \<^verbatim>\<open>r.List(ctx, targets, client.MatchingLabels{key: value})\<close> with no namespace option:
  the objects of the kind, in every namespace, that carry the label.
\<close>

definition matchingLabels :: "GroupVersionKind \<Rightarrow> string \<Rightarrow> string \<Rightarrow> Unstructured \<Rightarrow> bool" where
  "matchingLabels gvk key val obj = (GVK obj = gvk \<and> MetaLabels obj key = Some val)"

definition ListMatching ::
  "Cluster \<Rightarrow> GroupVersionKind \<Rightarrow> string \<Rightarrow> string \<Rightarrow> (Unstructured list \<times> error option) \<times> Cluster" where
  "ListMatching c gvk key val =
     (case request c (ListCall gvk key val) of
        (Some e, c') \<Rightarrow> (([], Some e), c')
      | (None, c') \<Rightarrow> ((filter (matchingLabels gvk key val) (ClusterObjects c'), None), c'))"

definition emptyReplika :: Replika where
  "emptyReplika =
     \<lparr>ObjectName = '''', ObjectNamespace = '''', DeletionTimestamp = None, Finalizers = [],
      Spec = \<lparr>Synchronization = \<lparr>Time = ''''\<rparr>,
              Source = \<lparr>Group = '''', Version = '''', Kind = '''', Name = '''', Namespace = ''''\<rparr>,
              Target = \<lparr>Namespaces = \<lparr>ReplicateIn = [], MatchAll = False, ExcludeFrom = []\<rparr>\<rparr>\<rparr>,
      ReplikaStatus = \<lparr>Conditions = []\<rparr>\<rparr>"

text \<open>\<^verbatim>\<open>r.Get(ctx, req.NamespacedName, replika)\<close> for a Replika.\<close>

definition GetReplika ::
  "Cluster \<Rightarrow> string \<times> string \<Rightarrow> (Replika \<times> error option) \<times> Cluster" where
  "GetReplika c req =
     (case request c (GetReplikaCall (fst req) (snd req)) of
        (Some e, c') \<Rightarrow> ((emptyReplika, Some e), c')
      | (None, c') \<Rightarrow>
          (case ClusterReplikas c' req of
             None \<Rightarrow> ((emptyReplika, Some NotFound), c')
           | Some stored \<Rightarrow> ((stored, None), c')))"

text \<open>
  \<^verbatim>\<open>r.Update(ctx, replika)\<close>: the server stores metadata and spec, keeps the status
  (a subresource) and the deletion timestamp it has, and purges an object that is being
  deleted once its last finalizer is gone. The manifest is refreshed from the answer.
\<close>

definition UpdateReplika :: "Cluster \<Rightarrow> Replika \<Rightarrow> (Replika \<times> error option) \<times> Cluster" where
  "UpdateReplika c replika =
     (let req = (ObjectNamespace replika, ObjectName replika) in
      case request c (UpdateReplikaCall (fst req) (snd req)) of
        (Some e, c') \<Rightarrow> ((replika, Some e), c')
      | (None, c') \<Rightarrow>
          (case ClusterReplikas c' req of
             None \<Rightarrow> ((replika, Some NotFound), c')
           | Some stored \<Rightarrow>
               (let new = replika\<lparr>ReplikaStatus := ReplikaStatus stored,
                                    DeletionTimestamp := DeletionTimestamp stored\<rparr>
                in if DeletionTimestamp new \<noteq> None \<and> Finalizers new = []
                   then ((new, None), c'\<lparr>ClusterReplikas := (ClusterReplikas c')(req := None)\<rparr>)
                   else ((new, None), c'\<lparr>ClusterReplikas := (ClusterReplikas c')(req \<mapsto> new)\<rparr>))))"

text \<open>\<^verbatim>\<open>r.Status().Update(ctx, replika)\<close>: the server stores the status only.\<close>

definition StatusUpdate :: "Cluster \<Rightarrow> Replika \<Rightarrow> (Replika \<times> error option) \<times> Cluster" where
  "StatusUpdate c replika =
     (let req = (ObjectNamespace replika, ObjectName replika) in
      case request c (StatusUpdateCall (fst req) (snd req)) of
        (Some e, c') \<Rightarrow> ((replika, Some e), c')
      | (None, c') \<Rightarrow>
          (case ClusterReplikas c' req of
             None \<Rightarrow> ((replika, Some NotFound), c')
           | Some stored \<Rightarrow>
               (let new = stored\<lparr>ReplikaStatus := ReplikaStatus replika\<rparr>
                in ((new, None), c'\<lparr>ClusterReplikas := (ClusterReplikas c')(req \<mapsto> new)\<rparr>))))"

section \<open>Building and synchronising the targets\<close>

text \<open>
  \<^verbatim>\<open>GetSynchronizationTime\<close>. \<^verbatim>\<open>time.ParseDuration\<close> belongs to the Go library and
  computes fractions in floating point: it is the parameter \<open>ParseDuration\<close>, from a
  string to an error or a number of nanoseconds.
\<close>

definition GetSynchronizationTime ::
  "(string \<Rightarrow> error + int) \<Rightarrow> Replika \<Rightarrow> int \<times> error option" where
  "GetSynchronizationTime ParseDuration replika =
     (case ParseDuration (Time (Synchronization (Spec replika))) of
        Inl e \<Rightarrow> (defaultSynchronizationTime, Some (ParseSyncTimeError (ObjectName replika)))
      | Inr synchronizationTime \<Rightarrow> (synchronizationTime, None))"

definition sourceGVK :: "Replika \<Rightarrow> GroupVersionKind" where
  "sourceGVK replika =
     (Group (Source (Spec replika)), Version (Source (Spec replika)),
      Kind (Source (Spec replika)))"

definition GetSource :: "Cluster \<Rightarrow> Replika \<Rightarrow> (Unstructured \<times> error option) \<times> Cluster" where
  "GetSource c replika =
     Get c (Namespace (Source (Spec replika))) (Name (Source (Spec replika)))
       (emptyUnstructured\<lparr>GVK := sourceGVK replika\<rparr>)"

text \<open>
  The accessors of \<^verbatim>\<open>unstructured\<close> used by \<^verbatim>\<open>BuildTargets\<close>.
  \<^verbatim>\<open>RemoveNestedField(obj, "metadata")\<close> drops the whole subtree.
\<close>

definition RemoveMetadata :: "Unstructured \<Rightarrow> Unstructured" where
  "RemoveMetadata obj =
     obj\<lparr>MetaName := '''', MetaNamespace := '''', MetaUID := '''',
         MetaAnnotations := Map.empty, MetaLabels := Map.empty, MetaOther := Map.empty\<rparr>"

definition RemoveStatus :: "Unstructured \<Rightarrow> Unstructured" where
  "RemoveStatus obj = obj\<lparr>StatusField := None\<rparr>"

definition SetName :: "string \<Rightarrow> Unstructured \<Rightarrow> Unstructured" where
  "SetName nm obj = obj\<lparr>MetaName := nm\<rparr>"

definition SetAnnotations :: "(string \<rightharpoonup> string) \<Rightarrow> Unstructured \<Rightarrow> Unstructured" where
  "SetAnnotations annotations obj = obj\<lparr>MetaAnnotations := annotations\<rparr>"

definition SetLabels :: "(string \<rightharpoonup> string) \<Rightarrow> Unstructured \<Rightarrow> Unstructured" where
  "SetLabels labels obj = obj\<lparr>MetaLabels := labels\<rparr>"

definition SetNamespace :: "string \<Rightarrow> Unstructured \<Rightarrow> Unstructured" where
  "SetNamespace ns obj = obj\<lparr>MetaNamespace := ns\<rparr>"

text \<open>
  The manifest \<^verbatim>\<open>BuildTargets\<close> derives from the source before it sets the namespace.
  The loop that copies the labels of the source into a fresh map is \<open>Map.empty ++ _\<close>.
\<close>

definition targetLabels :: "Replika \<Rightarrow> Unstructured \<Rightarrow> (string \<rightharpoonup> string)" where
  "targetLabels replika source =
     (Map.empty ++ MetaLabels source)
       (resourceReplikaLabelCreatedKey \<mapsto> resourceReplikaLabelCreatedValue,
        resourceReplikaLabelPartOfKey \<mapsto> ObjectName replika)"

definition buildTarget :: "Replika \<Rightarrow> Unstructured \<Rightarrow> Unstructured" where
  "buildTarget replika source =
     SetLabels (targetLabels replika source)
       (SetAnnotations (MetaAnnotations source)
          (SetName (MetaName source) (RemoveStatus (RemoveMetadata source))))"

definition sourceNotFoundCondition :: "nat \<Rightarrow> Condition" where
  "sourceNotFoundCondition now =
     NewReplikaCondition now ConditionTypeSourceSynced ConditionFalse
       ConditionReasonSourceNotFound ConditionReasonSourceNotFoundMessage"

definition targetNamespaceNotFoundCondition :: "nat \<Rightarrow> Condition" where
  "targetNamespaceNotFoundCondition now =
     NewReplikaCondition now ConditionTypeSourceSynced ConditionFalse
       ConditionReasonTargetNamespaceNotFound ConditionReasonTargetNamespaceNotFoundMessage"

definition replicationFailedCondition :: "nat \<Rightarrow> Condition" where
  "replicationFailedCondition now =
     NewReplikaCondition now ConditionTypeSourceSynced ConditionFalse
       ConditionReasonSourceReplicationFailed ConditionReasonSourceReplicationFailedMessage"

definition sourceSyncedCondition :: "nat \<Rightarrow> Condition" where
  "sourceSyncedCondition now =
     NewReplikaCondition now ConditionTypeSourceSynced ConditionTrue
       ConditionReasonSourceSynced ConditionReasonSourceSyncedMessage"

text \<open>
  \<^verbatim>\<open>BuildTargets\<close> of \<^verbatim>\<open>replika_sync.go\<close>: the targets and the error, the Replika with
  its conditions as the function left them, and the cluster.
\<close>

definition BuildTargets ::
  "nat \<Rightarrow> Cluster \<Rightarrow> Replika \<Rightarrow> (Unstructured list \<times> error option) \<times> Replika \<times> Cluster" where
  "BuildTargets now c replika =
     (case GetSource c replika of
        ((source, Some e), c1) \<Rightarrow>
          (([], Some e), UpdateReplikaCondition now replika (sourceNotFoundCondition now), c1)
      | ((source, None), c1) \<Rightarrow>
          (case GetNamespaces c1 replika of
             ((namespaces, Some e), c2) \<Rightarrow>
               (([], Some e),
                UpdateReplikaCondition now replika (targetNamespaceNotFoundCondition now), c2)
           | ((namespaces, None), c2) \<Rightarrow>
               ((map (\<lambda>ns. SetNamespace ns (buildTarget replika source)) namespaces, None),
                replika, c2)))"

text \<open>\<^verbatim>\<open>UpdateTarget\<close>: any error of the lookup leads to a create; otherwise a merge patch.\<close>

definition UpdateTarget :: "Cluster \<Rightarrow> Unstructured \<Rightarrow> error option \<times> Cluster" where
  "UpdateTarget c target =
     (case Get c (MetaNamespace target) (MetaName target) target of
        ((tmpTarget, Some e), c1) \<Rightarrow> Create c1 target
      | ((tmpTarget, None), c1) \<Rightarrow> Patch c1 target)"

text \<open>
  The loop of \<^verbatim>\<open>UpdateTargets\<close>: on the first target whose \<^verbatim>\<open>UpdateTarget\<close> fails,
  the condition is set and the function returns the error.
\<close>

fun updateTargetsLoop ::
  "nat \<Rightarrow> Cluster \<Rightarrow> Replika \<Rightarrow> Unstructured list \<Rightarrow> error option \<times> Replika \<times> Cluster" where
  "updateTargetsLoop now c replika [] = (None, replika, c)"
| "updateTargetsLoop now c replika (target # targets) =
     (case UpdateTarget c target of
        (Some e, c') \<Rightarrow>
          (Some e, UpdateReplikaCondition now replika (replicationFailedCondition now), c')
      | (None, c') \<Rightarrow> updateTargetsLoop now c' replika targets)"

definition UpdateTargets ::
  "nat \<Rightarrow> Cluster \<Rightarrow> Replika \<Rightarrow> error option \<times> Replika \<times> Cluster" where
  "UpdateTargets now c replika =
     (case BuildTargets now c replika of
        ((targets, Some e), replika', c') \<Rightarrow> (Some e, replika', c')
      | ((targets, None), replika', c') \<Rightarrow> updateTargetsLoop now c' replika' targets)"

text \<open>The loop of \<^verbatim>\<open>DeleteTargets\<close>: the first failing delete returns its error.\<close>

fun deleteTargetsLoop :: "Cluster \<Rightarrow> Unstructured list \<Rightarrow> error option \<times> Cluster" where
  "deleteTargetsLoop c [] = (None, c)"
| "deleteTargetsLoop c (item # items) =
     (case Delete c item of
        (Some e, c') \<Rightarrow> (Some e, c')
      | (None, c') \<Rightarrow> deleteTargetsLoop c' items)"

definition DeleteTargets :: "Cluster \<Rightarrow> Replika \<Rightarrow> error option \<times> Cluster" where
  "DeleteTargets c replika =
     (case ListMatching c (sourceGVK replika) resourceReplikaLabelPartOfKey (ObjectName replika) of
        ((items, Some e), c') \<Rightarrow> (Some e, c')
      | ((items, None), c') \<Rightarrow> deleteTargetsLoop c' items)"

section \<open>Comparing the conditions with the stored ones\<close>

text \<open>
  The two nested loops of \<^verbatim>\<open>SameReplikaConditions\<close>. \<open>differsFromStored\<close> is the inner
  loop for one condition of the Replika in memory: \<open>True\<close> when it reaches
  \<^verbatim>\<open>equal = false; return\<close>. \<open>conditionsLoop\<close> is the outer loop and gives \<open>equal\<close>.
\<close>

fun differsFromStored :: "Condition \<Rightarrow> Condition list \<Rightarrow> bool" where
  "differsFromStored cond [] = False"
| "differsFromStored cond (old # rest) =
     (let sameTypes = (Type cond = Type old);
          differentStatus = (Status cond \<noteq> Status old);
          differentReason = (Reason cond \<noteq> Reason old);
          differentMessage = (Message cond \<noteq> Message old)
      in if sameTypes \<and> (differentStatus \<or> differentReason \<or> differentMessage) then True
         else differsFromStored cond rest)"

fun conditionsLoop :: "Condition list \<Rightarrow> Condition list \<Rightarrow> bool" where
  "conditionsLoop [] olds = True"
| "conditionsLoop (cond # rest) olds =
     (if differsFromStored cond olds then False else conditionsLoop rest olds)"

definition SameReplikaConditions ::
  "Cluster \<Rightarrow> string \<times> string \<Rightarrow> Replika \<Rightarrow> (bool \<times> error option) \<times> Cluster" where
  "SameReplikaConditions c req replika =
     (case GetReplika c req of
        ((oldReplika, Some e), c') \<Rightarrow> ((True, Some e), c')
      | ((oldReplika, None), c') \<Rightarrow>
          ((conditionsLoop (Conditions (ReplikaStatus replika))
              (Conditions (ReplikaStatus oldReplika)), None), c'))"

section \<open>Reconcile\<close>

text \<open>\<^verbatim>\<open>ctrl.Result\<close>; \<^verbatim>\<open>RequeueAfter\<close> in nanoseconds.\<close>

record Result =
  Requeue :: bool
  RequeueAfter :: int

definition emptyResult :: Result where
  "emptyResult = \<lparr>Requeue = False, RequeueAfter = 0\<rparr>"

definition ContainsFinalizer :: "Replika \<Rightarrow> string \<Rightarrow> bool" where
  "ContainsFinalizer replika finalizer = list_ex (\<lambda>f. f = finalizer) (Finalizers replika)"

definition AddFinalizer :: "Replika \<Rightarrow> string \<Rightarrow> Replika" where
  "AddFinalizer replika finalizer =
     (if ContainsFinalizer replika finalizer then replika
      else replika\<lparr>Finalizers := Finalizers replika @ [finalizer]\<rparr>)"

definition RemoveFinalizer :: "Replika \<Rightarrow> string \<Rightarrow> Replika" where
  "RemoveFinalizer replika finalizer =
     replika\<lparr>Finalizers := filter (\<lambda>f. f \<noteq> finalizer) (Finalizers replika)\<rparr>"

definition IgnoreNotFound :: "error option \<Rightarrow> error option" where
  "IgnoreNotFound err = (if err = Some NotFound then None else err)"

text \<open>
  The deferred function of \<^verbatim>\<open>Reconcile\<close> (step 5). It assigns the named result
  \<^verbatim>\<open>err\<close>, so the error it leaves is the error \<^verbatim>\<open>Reconcile\<close> returns.
\<close>

definition deferredStatusUpdate ::
  "Cluster \<Rightarrow> string \<times> string \<Rightarrow> Replika \<Rightarrow> error option \<times> Cluster" where
  "deferredStatusUpdate c req replikaManifest =
     (case SameReplikaConditions c req replikaManifest of
        ((equal, err), c1) \<Rightarrow>
          if equal then (err, c1)
          else (case StatusUpdate c1 replikaManifest of ((stored, err'), c2) \<Rightarrow> (err', c2)))"

text \<open>Step 4: attach the finalizer and persist it.\<close>

definition attachFinalizer :: "Cluster \<Rightarrow> Replika \<Rightarrow> (Replika \<times> error option) \<times> Cluster" where
  "attachFinalizer c replikaManifest =
     (if \<not> ContainsFinalizer replikaManifest replikaFinalizer
      then UpdateReplika c (AddFinalizer replikaManifest replikaFinalizer)
      else ((replikaManifest, None), c))"

text \<open>Steps 6 to 8, up to the \<^verbatim>\<open>return result, err\<close> that the deferred function follows.\<close>

definition synchronize ::
  "nat \<Rightarrow> (string \<Rightarrow> error + int) \<Rightarrow> Cluster \<Rightarrow> Replika \<Rightarrow>
     (Result \<times> error option) \<times> Replika \<times> Cluster" where
  "synchronize now ParseDuration c replikaManifest =
     (case UpdateTargets now c replikaManifest of
        (Some e, replika1, c1) \<Rightarrow> ((emptyResult, Some e), replika1, c1)
      | (None, replika1, c1) \<Rightarrow>
          (case GetSynchronizationTime ParseDuration replika1 of
             (RequeueTime, Some e) \<Rightarrow> ((emptyResult, Some e), replika1, c1)
           | (RequeueTime, None) \<Rightarrow>
               ((\<lparr>Requeue = False, RequeueAfter = RequeueTime\<rparr>, None),
                UpdateReplikaCondition now replika1 (sourceSyncedCondition now), c1)))"

text \<open>
  \<^verbatim>\<open>Reconcile\<close>, the version that compares the conditions before it persists them
  (\<^verbatim>\<open>replika_update.go\<close>, lines 308 to 414). \<open>req\<close> is \<^verbatim>\<open>req.NamespacedName\<close>, the
  pair of namespace and name. The named result \<^verbatim>\<open>result\<close> is the zero \<^verbatim>\<open>ctrl.Result\<close>
  until step 7 assigns it. The deferred function is registered at step 5, so it runs
  after every \<^verbatim>\<open>return\<close> of steps 6 to 8 and after none of the earlier ones.
\<close>

definition Reconcile ::
  "nat \<Rightarrow> (string \<Rightarrow> error + int) \<Rightarrow> Cluster \<Rightarrow> string \<times> string \<Rightarrow>
     (Result \<times> error option) \<times> Cluster" where
  "Reconcile now ParseDuration c req =
     (case GetReplika c req of
        ((replikaManifest, Some e), c1) \<Rightarrow> ((emptyResult, IgnoreNotFound (Some e)), c1)
      | ((replikaManifest, None), c1) \<Rightarrow>
          if DeletionTimestamp replikaManifest \<noteq> None then
            (if ContainsFinalizer replikaManifest replikaFinalizer then
               (case DeleteTargets c1 replikaManifest of
                  (Some e, c2) \<Rightarrow> ((emptyResult, Some e), c2)
                | (None, c2) \<Rightarrow>
                    (case UpdateReplika c2 (RemoveFinalizer replikaManifest replikaFinalizer) of
                       ((stored, err), c3) \<Rightarrow> ((emptyResult, None), c3)))
             else ((emptyResult, None), c1))
          else
            (case attachFinalizer c1 replikaManifest of
               ((replika2, Some e), c2) \<Rightarrow> ((emptyResult, Some e), c2)
             | ((replika2, None), c2) \<Rightarrow>
                 (case synchronize now ParseDuration c2 replika2 of
                    ((result, err), replika3, c3) \<Rightarrow>
                      (case deferredStatusUpdate c3 req replika3 of
                         (err', c4) \<Rightarrow> ((result, err'), c4)))))"

section \<open>Sample inputs\<close>

text \<open>
  The Replika of \<^verbatim>\<open>config/samples\<close> and of the README: it replicates the ConfigMap
  \<^verbatim>\<open>sample-configmap\<close> of the namespace \<^verbatim>\<open>default\<close>, here with the synchronisation time
  and the namespace policy as arguments.
\<close>

definition sampleReplika :: "string \<Rightarrow> string \<Rightarrow> string list \<Rightarrow> bool \<Rightarrow> string list \<Rightarrow> Replika" where
  "sampleReplika syncTime sourceNs replicateIn matchAll excludeFrom =
     \<lparr>ObjectName = ''replika-sample'', ObjectNamespace = ''replika'',
      DeletionTimestamp = None, Finalizers = [],
      Spec = \<lparr>Synchronization = \<lparr>Time = syncTime\<rparr>,
              Source = \<lparr>Group = '''', Version = ''v1'', Kind = ''ConfigMap'',
                        Name = ''sample-configmap'', Namespace = sourceNs\<rparr>,
              Target = \<lparr>Namespaces = \<lparr>ReplicateIn = replicateIn, MatchAll = matchAll,
                                      ExcludeFrom = excludeFrom\<rparr>\<rparr>\<rparr>,
      ReplikaStatus = \<lparr>Conditions = []\<rparr>\<rparr>"

definition sampleRequest :: "string \<times> string" where
  "sampleRequest = (''replika'', ''replika-sample'')"

definition sampleConfigMap :: "string \<Rightarrow> (string \<rightharpoonup> string) \<Rightarrow> Unstructured" where
  "sampleConfigMap ns labels =
     \<lparr>GVK = ('''', ''v1'', ''ConfigMap''), MetaName = ''sample-configmap'', MetaNamespace = ns,
      MetaUID = ''0b5c7a'', MetaAnnotations = [''owner'' \<mapsto> ''platform''],
      MetaLabels = labels, MetaOther = [''resourceVersion'' \<mapsto> JValue ''41''],
      StatusField = None,
      Payload = [''data'' \<mapsto> JObject [(''example-key'', JValue ''value'')]]\<rparr>"

text \<open>A cluster that rejects no request, with an empty trace.\<close>

definition sampleCluster ::
  "string list \<Rightarrow> Unstructured list \<Rightarrow> ((string \<times> string) \<rightharpoonup> Replika) \<Rightarrow> Cluster" where
  "sampleCluster namespaces objects replikas =
     \<lparr>ClusterNamespaces = namespaces, ClusterObjects = objects, ClusterReplikas = replikas,
      Fault = (\<lambda>n k. None), Calls = []\<rparr>"

definition fourNamespaces :: "string list" where
  "fourNamespaces = [''default'', ''kube-system'', ''team-a'', ''team-b'']"

text \<open>\<^verbatim>\<open>time.ParseDuration\<close> on the two strings the samples use.\<close>

definition sampleParseDuration :: "string \<Rightarrow> error + int" where
  "sampleParseDuration s =
     (if s = ''20s'' then Inr (20 * 1000000000)
      else Inl (ApiError ''time: invalid duration''))"

text \<open>The requests of each kind in a trace.\<close>

fun isUpdateReplikaCall :: "call \<Rightarrow> bool" where
  "isUpdateReplikaCall (UpdateReplikaCall ns nm) = True"
| "isUpdateReplikaCall k = False"

fun isStatusUpdateCall :: "call \<Rightarrow> bool" where
  "isStatusUpdateCall (StatusUpdateCall ns nm) = True"
| "isStatusUpdateCall k = False"

text \<open>
  The operation the round-trip property of the specification applies to a built target:
  it removes the two labels of the controller.
\<close>

definition stripControllerLabels :: "(string \<rightharpoonup> string) \<Rightarrow> (string \<rightharpoonup> string)" where
  "stripControllerLabels labels =
     labels |` (- {resourceReplikaLabelCreatedKey, resourceReplikaLabelPartOfKey})"

text \<open>A Replika whose replication failed when the clock read 1.\<close>

definition replikaFailedAt1 :: Replika where
  "replikaFailedAt1 =
     UpdateReplikaCondition 1 (sampleReplika ''20s'' ''default'' [''team-a''] False [])
       (replicationFailedCondition 1)"

text \<open>
  Two clusters that hold the source: one where it has an ordinary label, one where it is
  itself a target of another Replika and carries that one's \<^verbatim>\<open>part-of\<close> label.
\<close>

definition clusterWithPlainSource :: Cluster where
  "clusterWithPlainSource =
     sampleCluster fourNamespaces [sampleConfigMap ''default'' [''app'' \<mapsto> ''demo'']] Map.empty"

definition clusterWithChainedSource :: Cluster where
  "clusterWithChainedSource =
     sampleCluster fourNamespaces
       [sampleConfigMap ''default'' [resourceReplikaLabelPartOfKey \<mapsto> ''upstream-replika'']]
       Map.empty"

text \<open>
  A Replika that names a namespace the cluster does not have between two it has, and the
  three targets \<^verbatim>\<open>BuildTargets\<close> makes for it.
\<close>

definition replikaWithGhost :: Replika where
  "replikaWithGhost = sampleReplika ''20s'' ''default'' [''team-a'', ''ghost'', ''team-b''] False []"

definition ghostTarget :: "string \<Rightarrow> Unstructured" where
  "ghostTarget ns =
     SetNamespace ns
       (buildTarget replikaWithGhost (sampleConfigMap ''default'' [''app'' \<mapsto> ''demo'']))"

definition configMapGVK :: GroupVersionKind where
  "configMapGVK = ('''', ''v1'', ''ConfigMap'')"

text \<open>
  A cluster that holds the source and its copies in team-a and team-b. In the second one
  the server rejects the deletion of the copy in team-a.
\<close>

definition replicatedConfigMap :: "string \<Rightarrow> Unstructured" where
  "replicatedConfigMap ns =
     sampleConfigMap ns
       [resourceReplikaLabelCreatedKey \<mapsto> resourceReplikaLabelCreatedValue,
        resourceReplikaLabelPartOfKey \<mapsto> ''replika-sample'']"

definition clusterWithCopies :: "((string \<times> string) \<rightharpoonup> Replika) \<Rightarrow> Cluster" where
  "clusterWithCopies replikas =
     sampleCluster fourNamespaces
       [sampleConfigMap ''default'' [''app'' \<mapsto> ''demo''],
        replicatedConfigMap ''team-a'', replicatedConfigMap ''team-b'']
       replikas"

definition rejectDeleteInTeamA :: "nat \<Rightarrow> call \<Rightarrow> error option" where
  "rejectDeleteInTeamA n k =
     (if k = DeleteCall configMapGVK ''team-a'' ''sample-configmap''
      then Some (ApiError ''forbidden'') else None)"

text \<open>
  Requests that leave the stored Replikas alone and are neither an update of a Replika
  nor an update of its status: what the requests on namespaces and objects do between
  two states of the cluster.
\<close>

definition objectsOnly :: "Cluster \<Rightarrow> Cluster \<Rightarrow> bool" where
  "objectsOnly c c' =
     (ClusterReplikas c' = ClusterReplikas c
      \<and> filter isUpdateReplikaCall (Calls c') = filter isUpdateReplikaCall (Calls c)
      \<and> filter isStatusUpdateCall (Calls c') = filter isStatusUpdateCall (Calls c))"

text \<open>
  A Replika the user has deleted, with the finalizer of the controller still attached, and
  a Replika whose synchronisation time is not a duration.
\<close>

definition deletingReplika :: Replika where
  "deletingReplika =
     (sampleReplika ''20s'' ''default'' [] True [])
       \<lparr>DeletionTimestamp := Some 5, Finalizers := [replikaFinalizer]\<rparr>"

definition replikaWithBadTime :: Replika where
  "replikaWithBadTime =
     (sampleReplika ''soon'' ''default'' [''team-a''] False [])
       \<lparr>Finalizers := [replikaFinalizer]\<rparr>"

definition freshReplika :: Replika where
  "freshReplika = sampleReplika ''20s'' ''default'' [''team-a''] False []"

definition clusterWithReplika :: "Replika \<Rightarrow> Cluster" where
  "clusterWithReplika replika =
     sampleCluster fourNamespaces [sampleConfigMap ''default'' [''app'' \<mapsto> ''demo'']]
       [sampleRequest \<mapsto> replika]"

text \<open>The Replika stored under \<open>req\<close>, if there is one, has no condition yet.\<close>

definition storesNoCondition :: "Cluster \<Rightarrow> string \<times> string \<Rightarrow> bool" where
  "storesNoCondition c req =
     (case ClusterReplikas c req of
        None \<Rightarrow> True
      | Some stored \<Rightarrow> Conditions (ReplikaStatus stored) = [])"

section \<open>Namespace resolution\<close>

lemma excludedLoop_not_excluded:
  "excludedLoop ns excl = Inr False \<Longrightarrow> ns \<notin> set excl"
  by (induction excl) (auto split: if_splits)

lemma excludedLoop_excluded:
  "excludedLoop ns excl = Inr True \<Longrightarrow> ns \<in> set excl"
  by (induction excl) (auto split: if_splits)

lemma excludedLoop_wellformed:
  "\<forall>e\<in>set excl. expressionMatch e \<Longrightarrow> excludedLoop ns excl = Inr (ns \<in> set excl)"
  by (induction excl) auto

lemma namespaceLoop_success:
  "namespaceLoop r items acc = (nss, None) \<Longrightarrow>
   nss = acc @ filter (\<lambda>ns. ns \<noteq> Namespace (Source (Spec r))
                          \<and> ns \<notin> set (ExcludeFrom (Namespaces (Target (Spec r))))) items"
proof (induction items arbitrary: acc)
  case Nil
  then show ?case by simp
next
  case (Cons ns items)
  show ?case
  proof (cases "ns = Namespace (Source (Spec r))")
    case True
    with Cons show ?thesis by simp
  next
    case False
    show ?thesis
    proof (cases "excludedLoop ns (ExcludeFrom (Namespaces (Target (Spec r))))")
      case (Inl e)
      with False Cons.prems show ?thesis by simp
    next
      case (Inr b)
      show ?thesis
      proof (cases b)
        case True
        with Inr False Cons show ?thesis
          by (simp add: excludedLoop_excluded)
      next
        case notb: False
        with Inr False Cons.prems have "namespaceLoop r items (acc @ [ns]) = (nss, None)"
          by simp
        from Cons.IH [OF this] Inr notb False show ?thesis
          by (simp add: excludedLoop_not_excluded)
      qed
    qed
  qed
qed

lemma namespaceLoop_wellformed:
  "\<forall>e\<in>set (ExcludeFrom (Namespaces (Target (Spec r)))). expressionMatch e \<Longrightarrow>
   namespaceLoop r items acc =
     (acc @ filter (\<lambda>ns. ns \<noteq> Namespace (Source (Spec r))
                        \<and> ns \<notin> set (ExcludeFrom (Namespaces (Target (Spec r))))) items, None)"
  by (induction items arbitrary: acc) (auto simp: excludedLoop_wellformed)

lemma namespaceLoop_skips_source:
  "namespaceLoop r items acc = (nss, err) \<Longrightarrow> Namespace (Source (Spec r)) \<notin> set acc \<Longrightarrow>
   Namespace (Source (Spec r)) \<notin> set nss"
proof (induction items arbitrary: acc)
  case Nil
  then show ?case by simp
next
  case (Cons ns items)
  then show ?case
    by (auto split: if_splits sum.splits bool.splits)
qed

lemma replicateInLoop_keeps_error:
  "replicateInLoop r vs acc (Some e) \<noteq> (nss, None)"
  by (induction vs arbitrary: acc e) (auto simp: Let_def)

lemma replicateInLoop_success:
  "replicateInLoop r vs acc err = (nss, None) \<Longrightarrow>
   Namespace (Source (Spec r)) \<notin> set acc \<Longrightarrow> Namespace (Source (Spec r)) \<notin> set nss"
proof (induction vs arbitrary: acc err)
  case Nil
  then show ?case by simp
next
  case (Cons v vs)
  show ?case
  proof (cases "v = Namespace (Source (Spec r))")
    case True
    with Cons.prems show ?thesis
      by (simp add: Let_def replicateInLoop_keeps_error split: if_splits)
  next
    case False
    with Cons.prems have "replicateInLoop r vs (acc @ [v]) err = (nss, None)"
      by (simp add: Let_def split: if_splits)
    from Cons.IH [OF this] False Cons.prems(2) show ?thesis by simp
  qed
qed

lemma replicateInLoop_source_listed:
  "Namespace (Source (Spec r)) \<in> set vs \<Longrightarrow> replicateInLoop r vs acc err \<noteq> (nss, None)"
proof (induction vs arbitrary: acc err)
  case Nil
  then show ?case by simp
next
  case (Cons v vs)
  show ?case
  proof (cases "v = Namespace (Source (Spec r))")
    case True
    then show ?thesis
      by (simp add: Let_def replicateInLoop_keeps_error)
  next
    case False
    with Cons show ?thesis
      by (simp add: Let_def)
  qed
qed

lemma ListNamespaces_result:
  "ListNamespaces c =
     ((case Fault c (length (Calls c)) ListNamespacesCall of
         Some e \<Rightarrow> ([], Some e) | None \<Rightarrow> (ClusterNamespaces c, None)),
      c\<lparr>Calls := Calls c @ [ListNamespacesCall]\<rparr>)"
  by (simp add: ListNamespaces_def request_def split: option.splits)

lemma GetNamespaces_source_on_success:
  assumes "GetNamespaces c replika = ((namespaces, err), c')"
    and "err = None \<or> MatchAll (Namespaces (Target (Spec replika)))
         \<or> ReplicateIn (Namespaces (Target (Spec replika))) = []"
  shows "Namespace (Source (Spec replika)) \<notin> set namespaces"
proof (cases "MatchAll (Namespaces (Target (Spec replika)))")
  case True
  show ?thesis
  proof (cases "Fault c (length (Calls c)) ListNamespacesCall")
    case None
    with True assms(1)
    have "namespaceLoop replika (ClusterNamespaces c) [] = (namespaces, err)"
      by (simp add: GetNamespaces_def ListNamespaces_result)
    then show ?thesis
      by (rule namespaceLoop_skips_source) simp
  next
    case (Some e)
    with True assms(1) show ?thesis
      by (auto simp: GetNamespaces_def ListNamespaces_result)
  qed
next
  case noMatchAll: False
  show ?thesis
  proof (cases "ReplicateIn (Namespaces (Target (Spec replika))) = []")
    case True
    with noMatchAll assms(1) show ?thesis
      by (auto simp: GetNamespaces_def split: if_splits)
  next
    case False
    with noMatchAll assms(2) have "err = None" by simp
    with False noMatchAll assms(1)
    have "replicateInLoop replika (ReplicateIn (Namespaces (Target (Spec replika)))) [] None
            = (namespaces, None)"
      by (simp add: GetNamespaces_def)
    then show ?thesis
      by (rule replicateInLoop_success) simp
  qed
qed

lemma BuildTargets_namespaces:
  assumes "BuildTargets now c replika = ((targets, err), replika', c')"
  shows "\<exists>c1 c2 namespaces. GetNamespaces c1 replika = ((namespaces, None), c2)
           \<and> map MetaNamespace targets = namespaces \<or> targets = []"
  using assms
  by (auto simp: BuildTargets_def SetNamespace_def comp_def
           split: prod.splits option.splits)

text \<open>
  C1, as amended. The list \<^verbatim>\<open>GetNamespaces\<close> returns does not contain the namespace of the
  source whenever it returns no error, and under \<^verbatim>\<open>matchAll\<close> or an empty
  \<^verbatim>\<open>replicateIn\<close> even when it returns one. When \<^verbatim>\<open>replicateIn\<close> names the namespace
  of the source, \<^verbatim>\<open>GetNamespaces\<close> returns an error, and \<^verbatim>\<open>BuildTargets\<close> never builds a
  target in the namespace of the source.
\<close>

theorem GetNamespaces_never_lists_source_without_error:
  assumes "GetNamespaces c replika = ((namespaces, err), c')"
  shows "(err = None \<or> MatchAll (Namespaces (Target (Spec replika)))
            \<or> ReplicateIn (Namespaces (Target (Spec replika))) = []
          \<longrightarrow> Namespace (Source (Spec replika)) \<notin> set namespaces)
       \<and> (\<not> MatchAll (Namespaces (Target (Spec replika)))
            \<and> Namespace (Source (Spec replika))
                \<in> set (ReplicateIn (Namespaces (Target (Spec replika))))
          \<longrightarrow> err \<noteq> None)
       \<and> Namespace (Source (Spec replika))
            \<notin> MetaNamespace ` set (fst (fst (BuildTargets now c0 replika)))"
proof (intro conjI impI)
  assume "err = None \<or> MatchAll (Namespaces (Target (Spec replika)))
            \<or> ReplicateIn (Namespaces (Target (Spec replika))) = []"
  with assms show "Namespace (Source (Spec replika)) \<notin> set namespaces"
    by (rule GetNamespaces_source_on_success)
next
  assume listed: "\<not> MatchAll (Namespaces (Target (Spec replika)))
            \<and> Namespace (Source (Spec replika))
                \<in> set (ReplicateIn (Namespaces (Target (Spec replika))))"
  then have "ReplicateIn (Namespaces (Target (Spec replika))) \<noteq> []" by auto
  with listed assms
  have "replicateInLoop replika (ReplicateIn (Namespaces (Target (Spec replika)))) [] None
          = (namespaces, err)"
    by (simp add: GetNamespaces_def)
  moreover from listed
  have "replicateInLoop replika (ReplicateIn (Namespaces (Target (Spec replika)))) [] None
          \<noteq> (namespaces, None)"
    by (simp add: replicateInLoop_source_listed)
  ultimately show "err \<noteq> None"
    by auto
next
  obtain targets e r' c' where bt: "BuildTargets now c0 replika = ((targets, e), r', c')"
    by (metis prod.exhaust)
  from BuildTargets_namespaces [OF bt]
  have "Namespace (Source (Spec replika)) \<notin> set (map MetaNamespace targets)"
  proof (elim disjE exE conjE)
    fix c1 c2 nss
    assume g: "GetNamespaces c1 replika = ((nss, None), c2)"
      and m: "map MetaNamespace targets = nss"
    from GetNamespaces_source_on_success [OF g] m show ?thesis by simp
  next
    assume "targets = []"
    then show ?thesis by simp
  qed
  with bt show "Namespace (Source (Spec replika))
            \<notin> MetaNamespace ` set (fst (fst (BuildTargets now c0 replika)))"
    by simp
qed

theorem GetNamespaces_never_lists_source_without_error_witness:
  "GetNamespaces (sampleCluster fourNamespaces [] Map.empty)
       (sampleReplika ''20s'' ''default'' [''team-a'', ''team-b''] False [])
     = (([''team-a'', ''team-b''], None), sampleCluster fourNamespaces [] Map.empty)
   \<and> ''default'' \<notin> set [''team-a'', ''team-b'']
   \<and> GetNamespaces (sampleCluster fourNamespaces [] Map.empty)
       (sampleReplika ''20s'' ''default'' [''team-a'', ''default''] False [])
     = (([''team-a'', ''default''], Some (SourceAndTargetSameNamespaceError ''default'')),
        sampleCluster fourNamespaces [] Map.empty)
   \<and> Some (SourceAndTargetSameNamespaceError ''default'') \<noteq> None"
proof -
  let ?c = "sampleCluster fourNamespaces [] Map.empty"
  let ?ok = "sampleReplika ''20s'' ''default'' [''team-a'', ''team-b''] False []"
  let ?self = "sampleReplika ''20s'' ''default'' [''team-a'', ''default''] False []"
  have ok: "GetNamespaces ?c ?ok = (([''team-a'', ''team-b''], None), ?c)"
    by (simp add: GetNamespaces_def sampleReplika_def lowerAlnum_def dashLowerAlnum_def)
  have self: "GetNamespaces ?c ?self
      = (([''team-a'', ''default''], Some (SourceAndTargetSameNamespaceError ''default'')), ?c)"
    by (simp add: GetNamespaces_def sampleReplika_def lowerAlnum_def dashLowerAlnum_def)
  from GetNamespaces_never_lists_source_without_error [OF ok]
       GetNamespaces_never_lists_source_without_error [OF self] ok self
  show ?thesis
    by (simp add: sampleReplika_def)
qed

text \<open>
  C1 as stated fails: \<^verbatim>\<open>replicateIn: ["default"]\<close> with the source in \<^verbatim>\<open>default\<close>
  returns the list \<^verbatim>\<open>["default"]\<close>, next to the error.
\<close>

theorem GetNamespaces_lists_source_counterexample:
  "Namespace (Source (Spec (sampleReplika ''20s'' ''default'' [''default''] False [])))
     \<in> set (fst (fst (GetNamespaces (sampleCluster fourNamespaces [] Map.empty)
                        (sampleReplika ''20s'' ''default'' [''default''] False []))))"
  by (simp add: GetNamespaces_def sampleReplika_def lowerAlnum_def dashLowerAlnum_def)

text \<open>
  C2. Under \<^verbatim>\<open>matchAll\<close>, a resolution that returns no error returns the listed
  namespaces without the namespace of the source and without the entries of
  \<^verbatim>\<open>excludeFrom\<close>, and nothing else is removed; it returns no error when the list request
  succeeds and every entry of \<^verbatim>\<open>excludeFrom\<close> is well formed. For \<^verbatim>\<open>excludeFrom:
  ["kube-system"]\<close>, source namespace \<^verbatim>\<open>default\<close> and the namespaces default, kube-system,
  team-a, team-b, the result is team-a, team-b.
\<close>

theorem GetNamespaces_matchAll:
  assumes "MatchAll (Namespaces (Target (Spec replika)))"
  shows "(\<forall>namespaces c'. GetNamespaces c replika = ((namespaces, None), c') \<longrightarrow>
            namespaces =
              filter (\<lambda>ns. ns \<noteq> Namespace (Source (Spec replika))
                           \<and> ns \<notin> set (ExcludeFrom (Namespaces (Target (Spec replika)))))
                (ClusterNamespaces c)
            \<and> set namespaces =
                set (ClusterNamespaces c)
                  - (set (ExcludeFrom (Namespaces (Target (Spec replika))))
                     \<union> {Namespace (Source (Spec replika))}))
       \<and> (Fault c (length (Calls c)) ListNamespacesCall = None
            \<and> (\<forall>e\<in>set (ExcludeFrom (Namespaces (Target (Spec replika)))). expressionMatch e)
          \<longrightarrow> fst (GetNamespaces c replika) =
                (filter (\<lambda>ns. ns \<noteq> Namespace (Source (Spec replika))
                              \<and> ns \<notin> set (ExcludeFrom (Namespaces (Target (Spec replika)))))
                   (ClusterNamespaces c), None))
       \<and> fst (GetNamespaces (sampleCluster fourNamespaces [] Map.empty)
                (sampleReplika ''20s'' ''default'' [] True [''kube-system'']))
           = ([''team-a'', ''team-b''], None)"
proof (intro conjI allI impI)
  fix namespaces c'
  assume g: "GetNamespaces c replika = ((namespaces, None), c')"
  from g assms have "namespaceLoop replika (ClusterNamespaces c) [] = (namespaces, None)"
    by (cases "Fault c (length (Calls c)) ListNamespacesCall")
       (simp_all add: GetNamespaces_def ListNamespaces_result)
  from namespaceLoop_success [OF this]
  show eq: "namespaces =
              filter (\<lambda>ns. ns \<noteq> Namespace (Source (Spec replika))
                           \<and> ns \<notin> set (ExcludeFrom (Namespaces (Target (Spec replika)))))
                (ClusterNamespaces c)"
    by simp
  show "set namespaces =
          set (ClusterNamespaces c)
            - (set (ExcludeFrom (Namespaces (Target (Spec replika))))
               \<union> {Namespace (Source (Spec replika))})"
    by (subst eq) auto
next
  assume "Fault c (length (Calls c)) ListNamespacesCall = None
            \<and> (\<forall>e\<in>set (ExcludeFrom (Namespaces (Target (Spec replika)))). expressionMatch e)"
  with assms show "fst (GetNamespaces c replika) =
                (filter (\<lambda>ns. ns \<noteq> Namespace (Source (Spec replika))
                              \<and> ns \<notin> set (ExcludeFrom (Namespaces (Target (Spec replika)))))
                   (ClusterNamespaces c), None)"
    by (simp add: GetNamespaces_def ListNamespaces_result namespaceLoop_wellformed)
next
  show "fst (GetNamespaces (sampleCluster fourNamespaces [] Map.empty)
                (sampleReplika ''20s'' ''default'' [] True [''kube-system'']))
           = ([''team-a'', ''team-b''], None)"
    by (simp add: GetNamespaces_def ListNamespaces_result sampleCluster_def fourNamespaces_def
          sampleReplika_def lowerAlnum_def dashLowerAlnum_def)
qed

theorem GetNamespaces_matchAll_witness:
  "MatchAll (Namespaces (Target (Spec (sampleReplika ''20s'' ''default'' [] True [''kube-system'']))))
   \<and> fst (GetNamespaces (sampleCluster fourNamespaces [] Map.empty)
            (sampleReplika ''20s'' ''default'' [] True [''kube-system'']))
       = ([''team-a'', ''team-b''], None)
   \<and> set [''team-a'', ''team-b'']
       = set fourNamespaces - (set [''kube-system''] \<union> {''default''})"
proof -
  let ?c = "sampleCluster fourNamespaces [] Map.empty"
  let ?r = "sampleReplika ''20s'' ''default'' [] True [''kube-system'']"
  have m: "MatchAll (Namespaces (Target (Spec ?r)))"
    by (simp add: sampleReplika_def)
  have g: "GetNamespaces ?c ?r
             = (([''team-a'', ''team-b''], None), ?c\<lparr>Calls := [ListNamespacesCall]\<rparr>)"
    by (simp add: GetNamespaces_def ListNamespaces_result sampleCluster_def fourNamespaces_def
          sampleReplika_def lowerAlnum_def dashLowerAlnum_def)
  from GetNamespaces_matchAll [OF m, of ?c] g
  have "set [''team-a'', ''team-b'']
          = set (ClusterNamespaces ?c)
              - (set (ExcludeFrom (Namespaces (Target (Spec ?r))))
                 \<union> {Namespace (Source (Spec ?r))})"
    by blast
  with m g show ?thesis
    by (simp add: sampleCluster_def sampleReplika_def)
qed

text \<open>
  C3. With \<^verbatim>\<open>matchAll\<close> unset and \<^verbatim>\<open>replicateIn\<close> empty, \<^verbatim>\<open>GetNamespaces\<close> returns the
  single namespace \<^verbatim>\<open>default\<close> and no error when the source is in another namespace, and
  no namespace and the source-equals-target error when the source is in \<^verbatim>\<open>default\<close>.
\<close>

theorem GetNamespaces_empty_replicateIn:
  assumes "\<not> MatchAll (Namespaces (Target (Spec replika)))"
    and "ReplicateIn (Namespaces (Target (Spec replika))) = []"
  shows "GetNamespaces c replika =
           (if Namespace (Source (Spec replika)) \<noteq> ''default''
            then (([''default''], None), c)
            else (([], Some (SourceAndTargetSameNamespaceError ''default'')), c))"
  using assms by (simp add: GetNamespaces_def defaultTargetNamespace_def)

theorem GetNamespaces_empty_replicateIn_witness:
  "GetNamespaces (sampleCluster fourNamespaces [] Map.empty)
       (sampleReplika ''20s'' ''team-a'' [] False [])
     = (([''default''], None), sampleCluster fourNamespaces [] Map.empty)
   \<and> GetNamespaces (sampleCluster fourNamespaces [] Map.empty)
       (sampleReplika ''20s'' ''default'' [] False [])
     = (([], Some (SourceAndTargetSameNamespaceError ''default'')),
        sampleCluster fourNamespaces [] Map.empty)"
  using GetNamespaces_empty_replicateIn
          [of "sampleReplika ''20s'' ''team-a'' [] False []"
              "sampleCluster fourNamespaces [] Map.empty"]
        GetNamespaces_empty_replicateIn
          [of "sampleReplika ''20s'' ''default'' [] False []"
              "sampleCluster fourNamespaces [] Map.empty"]
  by (simp add: sampleReplika_def)

section \<open>Conditions and their transition time\<close>

lemma conditionIndex_bound:
  "conditionIndex conds condType = Some i \<Longrightarrow> i < length conds"
  by (induction conds arbitrary: i) (auto split: if_splits)

lemma UpdateReplikaCondition_existing:
  assumes "GetReplikaCondition replika (Type condition) = Some i"
  shows "Conditions (ReplikaStatus (UpdateReplikaCondition now replika condition)) ! i
           = (Conditions (ReplikaStatus replika) ! i)
               \<lparr>Status := Status condition, Reason := Reason condition,
                Message := Message condition, LastTransitionTime := now\<rparr>"
  using assms conditionIndex_bound [of "Conditions (ReplikaStatus replika)" "Type condition" i]
  by (simp add: UpdateReplikaCondition_def GetReplikaCondition_def Let_def)

lemma GetReplikaConditionCopy_append:
  "GetReplikaConditionCopy (xs @ ys) condType =
     (case GetReplikaConditionCopy xs condType of
        None \<Rightarrow> GetReplikaConditionCopy ys condType | Some c \<Rightarrow> Some c)"
  by (induction xs) auto

lemma GetReplikaConditionCopy_filterOut:
  "GetReplikaConditionCopy (filterOutCondition conds condType) condType = None"
  by (induction conds) auto

text \<open>
  The earlier setter does what the comment in it says: when the status of the stored
  condition does not change, the stored transition time stays.
\<close>

lemma SetReplikaCondition_keeps_transition_time:
  assumes "GetReplikaConditionCopy (Conditions (ReplikaStatus replika)) (Type condition) = Some cur"
    and "Status cur = Status condition"
  shows "map_option LastTransitionTime
           (GetReplikaConditionCopy
              (Conditions (ReplikaStatus (SetReplikaCondition replika condition)))
              (Type condition))
         = Some (LastTransitionTime cur)"
  using assms
  by (simp add: SetReplikaCondition_def Let_def GetReplikaConditionCopy_append
        GetReplikaConditionCopy_filterOut)

text \<open>
  C7 at the failing input. The Replika holds the condition \<^verbatim>\<open>SourceSynced = False\<close>
  (replication failed) with transition time 1. \<^verbatim>\<open>UpdateReplikaCondition\<close> is called with
  the same status, reason and message when the clock reads 2, and again when it reads 3:
  the status never changes, and the transition time becomes 2, then 3.
\<close>

theorem UpdateReplikaCondition_resets_transition_time:
  "map (\<lambda>cond. (Status cond, LastTransitionTime cond))
       (Conditions (ReplikaStatus replikaFailedAt1))
     = [(ConditionFalse, 1)]
   \<and> map (\<lambda>cond. (Status cond, LastTransitionTime cond))
       (Conditions (ReplikaStatus
          (UpdateReplikaCondition 2 replikaFailedAt1 (replicationFailedCondition 2))))
     = [(ConditionFalse, 2)]
   \<and> map (\<lambda>cond. (Status cond, LastTransitionTime cond))
       (Conditions (ReplikaStatus
          (UpdateReplikaCondition 3
             (UpdateReplikaCondition 2 replikaFailedAt1 (replicationFailedCondition 2))
             (replicationFailedCondition 3))))
     = [(ConditionFalse, 3)]"
  by (simp add: replikaFailedAt1_def UpdateReplikaCondition_def GetReplikaCondition_def
        replicationFailedCondition_def NewReplikaCondition_def sampleReplika_def Let_def)

section \<open>Target manifests\<close>

lemma controller_label_keys_differ:
  "resourceReplikaLabelCreatedKey \<noteq> resourceReplikaLabelPartOfKey"
  by (simp add: resourceReplikaLabelCreatedKey_def resourceReplikaLabelPartOfKey_def)

lemma stripControllerLabels_targetLabels:
  "stripControllerLabels (targetLabels replika source) = stripControllerLabels (MetaLabels source)"
  by (auto simp: stripControllerLabels_def targetLabels_def restrict_map_def fun_eq_iff)

lemma stripControllerLabels_id:
  "stripControllerLabels labels = labels \<longleftrightarrow>
     resourceReplikaLabelCreatedKey \<notin> dom labels \<and> resourceReplikaLabelPartOfKey \<notin> dom labels"
proof
  assume eq: "stripControllerLabels labels = labels"
  have "stripControllerLabels labels resourceReplikaLabelCreatedKey = None"
       "stripControllerLabels labels resourceReplikaLabelPartOfKey = None"
    by (simp_all add: stripControllerLabels_def)
  with eq show "resourceReplikaLabelCreatedKey \<notin> dom labels
                  \<and> resourceReplikaLabelPartOfKey \<notin> dom labels"
    by auto
next
  assume "resourceReplikaLabelCreatedKey \<notin> dom labels
            \<and> resourceReplikaLabelPartOfKey \<notin> dom labels"
  then show "stripControllerLabels labels = labels"
    by (auto simp: stripControllerLabels_def restrict_map_def fun_eq_iff)
qed

lemma BuildTargets_success:
  assumes "BuildTargets now c replika = ((targets, None), replika', c')"
  shows "\<exists>source c1 namespaces.
           GetSource c replika = ((source, None), c1)
           \<and> GetNamespaces c1 replika = ((namespaces, None), c')
           \<and> targets = map (\<lambda>ns. SetNamespace ns (buildTarget replika source)) namespaces"
  using assms
  by (auto simp: BuildTargets_def split: prod.splits option.splits)

text \<open>
  C8, as amended. Every target \<^verbatim>\<open>BuildTargets\<close> builds has the group, version, kind and
  payload of the source, no status, no metadata but the name and annotations of the source
  and the labels of the source overwritten by \<^verbatim>\<open>created-by\<close> and \<^verbatim>\<open>part-of\<close>. Without the
  two labels of the controller, the labels of the target are the labels of the source
  without these two keys: they are the labels of the source exactly when the source
  carries neither key.
\<close>

theorem BuildTargets_manifest:
  assumes "BuildTargets now c replika = ((targets, None), replika', c')"
    and "target \<in> set targets"
  shows "\<exists>source c1.
           GetSource c replika = ((source, None), c1)
           \<and> GVK target = GVK source \<and> Payload target = Payload source
           \<and> StatusField target = None \<and> MetaOther target = Map.empty \<and> MetaUID target = ''''
           \<and> MetaName target = MetaName source
           \<and> MetaAnnotations target = MetaAnnotations source
           \<and> MetaLabels target =
               (MetaLabels source)
                 (resourceReplikaLabelCreatedKey \<mapsto> resourceReplikaLabelCreatedValue,
                  resourceReplikaLabelPartOfKey \<mapsto> ObjectName replika)
           \<and> MetaLabels target resourceReplikaLabelCreatedKey
               = Some resourceReplikaLabelCreatedValue
           \<and> MetaLabels target resourceReplikaLabelPartOfKey = Some (ObjectName replika)
           \<and> stripControllerLabels (MetaLabels target) = stripControllerLabels (MetaLabels source)
           \<and> (stripControllerLabels (MetaLabels target) = MetaLabels source \<longleftrightarrow>
                resourceReplikaLabelCreatedKey \<notin> dom (MetaLabels source)
                \<and> resourceReplikaLabelPartOfKey \<notin> dom (MetaLabels source))"
proof -
  from BuildTargets_success [OF assms(1)] obtain source c1 namespaces where
    src: "GetSource c replika = ((source, None), c1)"
    and tg: "targets = map (\<lambda>ns. SetNamespace ns (buildTarget replika source)) namespaces"
    by blast
  from tg assms(2) obtain ns where t: "target = SetNamespace ns (buildTarget replika source)"
    by auto
  have labels: "MetaLabels target = targetLabels replika source"
    by (simp add: t SetNamespace_def buildTarget_def SetLabels_def)
  have strip: "stripControllerLabels (MetaLabels target) = stripControllerLabels (MetaLabels source)"
    by (simp add: labels stripControllerLabels_targetLabels)
  have "stripControllerLabels (MetaLabels target) = MetaLabels source \<longleftrightarrow>
          resourceReplikaLabelCreatedKey \<notin> dom (MetaLabels source)
          \<and> resourceReplikaLabelPartOfKey \<notin> dom (MetaLabels source)"
    by (simp only: strip stripControllerLabels_id)
  moreover have "GVK target = GVK source \<and> Payload target = Payload source
           \<and> StatusField target = None \<and> MetaOther target = Map.empty \<and> MetaUID target = ''''
           \<and> MetaName target = MetaName source
           \<and> MetaAnnotations target = MetaAnnotations source"
    by (simp add: t SetNamespace_def buildTarget_def SetLabels_def SetAnnotations_def
          SetName_def RemoveStatus_def RemoveMetadata_def)
  moreover have "MetaLabels target =
               (MetaLabels source)
                 (resourceReplikaLabelCreatedKey \<mapsto> resourceReplikaLabelCreatedValue,
                  resourceReplikaLabelPartOfKey \<mapsto> ObjectName replika)"
    by (simp add: labels targetLabels_def)
  moreover have "MetaLabels target resourceReplikaLabelCreatedKey
               = Some resourceReplikaLabelCreatedValue"
    and "MetaLabels target resourceReplikaLabelPartOfKey = Some (ObjectName replika)"
    using controller_label_keys_differ by (simp_all add: labels targetLabels_def)
  ultimately show ?thesis
    using src strip by blast
qed

lemma BuildTargets_chained:
  "BuildTargets 0 clusterWithChainedSource (sampleReplika ''20s'' ''default'' [''team-a''] False [])
     = (([SetNamespace ''team-a''
            (buildTarget (sampleReplika ''20s'' ''default'' [''team-a''] False [])
               (sampleConfigMap ''default''
                  [resourceReplikaLabelPartOfKey \<mapsto> ''upstream-replika'']))], None),
        sampleReplika ''20s'' ''default'' [''team-a''] False [],
        clusterWithChainedSource\<lparr>Calls := [GetCall ('''', ''v1'', ''ConfigMap'') ''default''
                                               ''sample-configmap'']\<rparr>)"
  by (simp add: BuildTargets_def GetSource_def Get_def request_def sourceGVK_def
        GetNamespaces_def clusterWithChainedSource_def sampleCluster_def
        sampleReplika_def sampleConfigMap_def emptyUnstructured_def sameObject_def
        lowerAlnum_def dashLowerAlnum_def)

text \<open>
  C8 as stated fails for a source that already carries a label of the controller, such
  as a source that is itself the target of another Replika: the round trip loses its
  \<^verbatim>\<open>part-of\<close> label.
\<close>

theorem BuildTargets_round_trip_counterexample:
  "map MetaNamespace
     (fst (fst (BuildTargets 0 clusterWithChainedSource
                  (sampleReplika ''20s'' ''default'' [''team-a''] False []))))
     = [''team-a'']
   \<and> stripControllerLabels
       (MetaLabels (hd (fst (fst (BuildTargets 0 clusterWithChainedSource
                                    (sampleReplika ''20s'' ''default'' [''team-a''] False []))))))
       resourceReplikaLabelPartOfKey = None
   \<and> MetaLabels (sampleConfigMap ''default''
                   [resourceReplikaLabelPartOfKey \<mapsto> ''upstream-replika''])
       resourceReplikaLabelPartOfKey = Some ''upstream-replika''"
  by (simp add: BuildTargets_chained SetNamespace_def stripControllerLabels_def
        sampleConfigMap_def)

lemma BuildTargets_plain:
  "BuildTargets 0 clusterWithPlainSource (sampleReplika ''20s'' ''default'' [''team-a''] False [])
     = (([SetNamespace ''team-a''
            (buildTarget (sampleReplika ''20s'' ''default'' [''team-a''] False [])
               (sampleConfigMap ''default'' [''app'' \<mapsto> ''demo'']))], None),
        sampleReplika ''20s'' ''default'' [''team-a''] False [],
        clusterWithPlainSource\<lparr>Calls := [GetCall ('''', ''v1'', ''ConfigMap'') ''default''
                                             ''sample-configmap'']\<rparr>)"
  by (simp add: BuildTargets_def GetSource_def Get_def request_def sourceGVK_def
        GetNamespaces_def clusterWithPlainSource_def sampleCluster_def
        sampleReplika_def sampleConfigMap_def emptyUnstructured_def sameObject_def
        lowerAlnum_def dashLowerAlnum_def)

theorem BuildTargets_manifest_witness:
  "SetNamespace ''team-a''
       (buildTarget (sampleReplika ''20s'' ''default'' [''team-a''] False [])
          (sampleConfigMap ''default'' [''app'' \<mapsto> ''demo'']))
     \<in> set (fst (fst (BuildTargets 0 clusterWithPlainSource
                         (sampleReplika ''20s'' ''default'' [''team-a''] False []))))
   \<and> stripControllerLabels
       (MetaLabels (SetNamespace ''team-a''
          (buildTarget (sampleReplika ''20s'' ''default'' [''team-a''] False [])
             (sampleConfigMap ''default'' [''app'' \<mapsto> ''demo'']))))
     = [''app'' \<mapsto> ''demo'']"
proof -
  let ?r = "sampleReplika ''20s'' ''default'' [''team-a''] False []"
  let ?s = "sampleConfigMap ''default'' [''app'' \<mapsto> ''demo'']"
  let ?t = "SetNamespace ''team-a'' (buildTarget ?r ?s)"
  have mem: "?t \<in> set [?t]" by simp
  have src: "GetSource clusterWithPlainSource ?r
      = ((?s, None), clusterWithPlainSource\<lparr>Calls := [GetCall ('''', ''v1'', ''ConfigMap'')
                                                         ''default'' ''sample-configmap'']\<rparr>)"
    by (simp add: GetSource_def Get_def request_def sourceGVK_def
          clusterWithPlainSource_def sampleCluster_def
          sampleReplika_def sampleConfigMap_def emptyUnstructured_def sameObject_def)
  have keys: "resourceReplikaLabelCreatedKey \<notin> dom (MetaLabels ?s)
                \<and> resourceReplikaLabelPartOfKey \<notin> dom (MetaLabels ?s)"
    by (simp add: sampleConfigMap_def resourceReplikaLabelCreatedKey_def
          resourceReplikaLabelPartOfKey_def)
  from BuildTargets_manifest [OF BuildTargets_plain mem] src keys
  have "stripControllerLabels (MetaLabels ?t) = MetaLabels ?s"
    by auto
  then show ?thesis
    by (simp add: BuildTargets_plain sampleConfigMap_def)
qed

section \<open>Synchronising and deleting the targets\<close>

text \<open>A merge patch merges a nested object member by member and drops what it sets to null.\<close>

lemma mergeJSON_nested:
  "mergeJSON (JObject [(''a'', JValue ''0''), (''b'', JValue ''2''), (''c'', JValue ''3'')])
     (JObject [(''a'', JValue ''1''), (''c'', JNull)])
   = JObject [(''a'', JValue ''1''), (''b'', JValue ''2'')]"
  by simp

lemma updateTargetsLoop_append:
  "updateTargetsLoop now c replika (xs @ ys) =
     (case updateTargetsLoop now c replika xs of
        (Some e, replika', c') \<Rightarrow> (Some e, replika', c')
      | (None, replika', c') \<Rightarrow> updateTargetsLoop now c' replika' ys)"
  by (induction xs arbitrary: c) (auto split: prod.splits option.splits)

lemma updateTargetsLoop_success_replika:
  "updateTargetsLoop now c replika xs = (None, replika', c') \<Longrightarrow> replika' = replika"
  by (induction xs arbitrary: c) (auto split: prod.splits option.splits)

lemma UpdateTarget_calls:
  "UpdateTarget c target = (err, c') \<Longrightarrow>
   Calls c' = Calls c @ [GetCall (GVK target) (MetaNamespace target) (MetaName target),
                          CreateCall (GVK target) (MetaNamespace target) (MetaName target)]
   \<or> Calls c' = Calls c @ [GetCall (GVK target) (MetaNamespace target) (MetaName target),
                            PatchCall (GVK target) (MetaNamespace target) (MetaName target)]"
  by (auto simp: UpdateTarget_def Get_def Create_def Patch_def request_def
           split: prod.splits option.splits if_splits)

lemma conditionIndex_type:
  "conditionIndex conds condType = Some i \<Longrightarrow> Type (conds ! i) = condType"
  by (induction conds arbitrary: i) (auto split: if_splits)

lemma UpdateReplikaCondition_recorded:
  "\<exists>cond \<in> set (Conditions (ReplikaStatus (UpdateReplikaCondition now replika condition))).
     Type cond = Type condition \<and> Status cond = Status condition
     \<and> Reason cond = Reason condition \<and> Message cond = Message condition"
proof (cases "GetReplikaCondition replika (Type condition)")
  case None
  then show ?thesis
    by (simp add: UpdateReplikaCondition_def Let_def)
next
  case (Some i)
  let ?conds = "Conditions (ReplikaStatus replika)"
  let ?new = "(?conds ! i)\<lparr>Status := Status condition, Reason := Reason condition,
                           Message := Message condition, LastTransitionTime := now\<rparr>"
  from Some have i: "i < length ?conds" and ty: "Type (?conds ! i) = Type condition"
    by (simp_all add: GetReplikaCondition_def conditionIndex_bound conditionIndex_type)
  from Some i have "?new \<in> set (Conditions (ReplikaStatus
                                  (UpdateReplikaCondition now replika condition)))"
    by (simp add: UpdateReplikaCondition_def Let_def set_update_memI)
  moreover from ty have "Type ?new = Type condition \<and> Status ?new = Status condition
     \<and> Reason ?new = Reason condition \<and> Message ?new = Message condition"
    by simp
  ultimately show ?thesis by blast
qed

text \<open>
  C4, as amended. When the targets before \<open>target\<close> were synchronised without error and
  \<^verbatim>\<open>UpdateTarget\<close> fails on \<open>target\<close>, \<^verbatim>\<open>UpdateTargets\<close> records the condition
  \<^verbatim>\<open>SourceSynced = False\<close> with the reason \<^verbatim>\<open>SourceReplicationFailed\<close> and returns that
  error at once. The cluster it leaves is the one right after the lookup and the create or
  patch of \<open>target\<close>: no request was made for a target after it.
\<close>

theorem UpdateTargets_stops_at_first_failure:
  assumes "BuildTargets now c replika = ((before @ target # after, None), replika1, c1)"
    and "updateTargetsLoop now c1 replika1 before = (None, replika2, c2)"
    and "UpdateTarget c2 target = (Some e, c3)"
  shows "UpdateTargets now c replika
           = (Some e, UpdateReplikaCondition now replika1 (replicationFailedCondition now), c3)
         \<and> (\<exists>cond \<in> set (Conditions (ReplikaStatus (fst (snd (UpdateTargets now c replika))))).
               Type cond = ConditionTypeSourceSynced \<and> Status cond = ConditionFalse
               \<and> Reason cond = ConditionReasonSourceReplicationFailed)
         \<and> (Calls c3 = Calls c2 @ [GetCall (GVK target) (MetaNamespace target) (MetaName target),
                                     CreateCall (GVK target) (MetaNamespace target) (MetaName target)]
            \<or> Calls c3 = Calls c2 @ [GetCall (GVK target) (MetaNamespace target) (MetaName target),
                                       PatchCall (GVK target) (MetaNamespace target) (MetaName target)])"
proof -
  from assms(2) have r2: "replika2 = replika1"
    by (rule updateTargetsLoop_success_replika)
  have res: "UpdateTargets now c replika
           = (Some e, UpdateReplikaCondition now replika1 (replicationFailedCondition now), c3)"
    using assms r2 by (simp add: UpdateTargets_def updateTargetsLoop_append)
  from UpdateReplikaCondition_recorded [of now replika1 "replicationFailedCondition now"]
  have "\<exists>cond \<in> set (Conditions (ReplikaStatus
                 (UpdateReplikaCondition now replika1 (replicationFailedCondition now)))).
               Type cond = ConditionTypeSourceSynced \<and> Status cond = ConditionFalse
               \<and> Reason cond = ConditionReasonSourceReplicationFailed"
    by (auto simp: replicationFailedCondition_def NewReplikaCondition_def)
  with res UpdateTarget_calls [OF assms(3)] show ?thesis
    by simp
qed

lemma BuildTargets_with_ghost:
  "BuildTargets 0 clusterWithPlainSource replikaWithGhost
     = (([ghostTarget ''team-a''] @ ghostTarget ''ghost'' # [ghostTarget ''team-b''], None),
        replikaWithGhost,
        clusterWithPlainSource\<lparr>Calls := [GetCall configMapGVK ''default'' ''sample-configmap'']\<rparr>)"
  by (simp add: BuildTargets_def GetSource_def Get_def request_def sourceGVK_def
        GetNamespaces_def clusterWithPlainSource_def sampleCluster_def replikaWithGhost_def
        ghostTarget_def configMapGVK_def
        sampleReplika_def sampleConfigMap_def emptyUnstructured_def sameObject_def
        lowerAlnum_def dashLowerAlnum_def)

lemma ghostTarget_fields:
  "GVK (ghostTarget ns) = configMapGVK" "MetaNamespace (ghostTarget ns) = ns"
  "MetaName (ghostTarget ns) = ''sample-configmap''"
  by (simp_all add: ghostTarget_def SetNamespace_def buildTarget_def SetLabels_def
        SetAnnotations_def SetName_def RemoveStatus_def RemoveMetadata_def
        sampleConfigMap_def configMapGVK_def)

lemma UpdateTarget_team_a:
  "UpdateTarget
     (clusterWithPlainSource\<lparr>Calls := [GetCall configMapGVK ''default'' ''sample-configmap'']\<rparr>)
     (ghostTarget ''team-a'')
   = (None, clusterWithPlainSource
        \<lparr>ClusterObjects := [sampleConfigMap ''default'' [''app'' \<mapsto> ''demo''],
                             ghostTarget ''team-a''],
         Calls := [GetCall configMapGVK ''default'' ''sample-configmap'',
                   GetCall configMapGVK ''team-a'' ''sample-configmap'',
                   CreateCall configMapGVK ''team-a'' ''sample-configmap'']\<rparr>)"
  by (simp add: UpdateTarget_def Get_def Create_def request_def ghostTarget_fields
        clusterWithPlainSource_def sampleCluster_def fourNamespaces_def sameObject_def
        sampleConfigMap_def configMapGVK_def)

lemma UpdateTarget_ghost:
  "UpdateTarget
     (clusterWithPlainSource
        \<lparr>ClusterObjects := [sampleConfigMap ''default'' [''app'' \<mapsto> ''demo''],
                             ghostTarget ''team-a''],
         Calls := [GetCall configMapGVK ''default'' ''sample-configmap'',
                   GetCall configMapGVK ''team-a'' ''sample-configmap'',
                   CreateCall configMapGVK ''team-a'' ''sample-configmap'']\<rparr>)
     (ghostTarget ''ghost'')
   = (Some NotFound, clusterWithPlainSource
        \<lparr>ClusterObjects := [sampleConfigMap ''default'' [''app'' \<mapsto> ''demo''],
                             ghostTarget ''team-a''],
         Calls := [GetCall configMapGVK ''default'' ''sample-configmap'',
                   GetCall configMapGVK ''team-a'' ''sample-configmap'',
                   CreateCall configMapGVK ''team-a'' ''sample-configmap'',
                   GetCall configMapGVK ''ghost'' ''sample-configmap'',
                   CreateCall configMapGVK ''ghost'' ''sample-configmap'']\<rparr>)"
  by (simp add: UpdateTarget_def Get_def Create_def request_def ghostTarget_fields
        clusterWithPlainSource_def sampleCluster_def fourNamespaces_def sameObject_def
        sampleConfigMap_def configMapGVK_def)

lemma UpdateTargets_with_ghost:
  "UpdateTargets 0 clusterWithPlainSource replikaWithGhost
     = (Some NotFound,
        UpdateReplikaCondition 0 replikaWithGhost (replicationFailedCondition 0),
        clusterWithPlainSource
        \<lparr>ClusterObjects := [sampleConfigMap ''default'' [''app'' \<mapsto> ''demo''],
                             ghostTarget ''team-a''],
         Calls := [GetCall configMapGVK ''default'' ''sample-configmap'',
                   GetCall configMapGVK ''team-a'' ''sample-configmap'',
                   CreateCall configMapGVK ''team-a'' ''sample-configmap'',
                   GetCall configMapGVK ''ghost'' ''sample-configmap'',
                   CreateCall configMapGVK ''ghost'' ''sample-configmap'']\<rparr>)"
  by (simp add: UpdateTargets_def BuildTargets_with_ghost UpdateTarget_team_a UpdateTarget_ghost)

theorem UpdateTargets_stops_at_first_failure_witness:
  "fst (UpdateTargets 0 clusterWithPlainSource replikaWithGhost) = Some NotFound
   \<and> fst (snd (UpdateTargets 0 clusterWithPlainSource replikaWithGhost))
       = UpdateReplikaCondition 0 replikaWithGhost (replicationFailedCondition 0)
   \<and> Calls (snd (snd (UpdateTargets 0 clusterWithPlainSource replikaWithGhost)))
       = [GetCall configMapGVK ''default'' ''sample-configmap'',
          GetCall configMapGVK ''team-a'' ''sample-configmap'',
          CreateCall configMapGVK ''team-a'' ''sample-configmap'',
          GetCall configMapGVK ''ghost'' ''sample-configmap'',
          CreateCall configMapGVK ''ghost'' ''sample-configmap'']"
proof -
  have loop: "updateTargetsLoop 0
      (clusterWithPlainSource\<lparr>Calls := [GetCall configMapGVK ''default'' ''sample-configmap'']\<rparr>)
      replikaWithGhost [ghostTarget ''team-a'']
    = (None, replikaWithGhost, clusterWithPlainSource
        \<lparr>ClusterObjects := [sampleConfigMap ''default'' [''app'' \<mapsto> ''demo''],
                             ghostTarget ''team-a''],
         Calls := [GetCall configMapGVK ''default'' ''sample-configmap'',
                   GetCall configMapGVK ''team-a'' ''sample-configmap'',
                   CreateCall configMapGVK ''team-a'' ''sample-configmap'']\<rparr>)"
    by (simp add: UpdateTarget_team_a)
  from UpdateTargets_stops_at_first_failure
         [OF BuildTargets_with_ghost loop UpdateTarget_ghost]
  show ?thesis
    by simp
qed

text \<open>
  C4 as stated fails: the create in the namespace \<^verbatim>\<open>ghost\<close>, which the cluster does not
  have, is refused, and the target in \<^verbatim>\<open>team-b\<close>, next in the list, is neither looked up
  nor created.
\<close>

theorem UpdateTargets_sibling_counterexample:
  "map MetaNamespace (fst (fst (BuildTargets 0 clusterWithPlainSource replikaWithGhost)))
     = [''team-a'', ''ghost'', ''team-b'']
   \<and> fst (UpdateTargets 0 clusterWithPlainSource replikaWithGhost) = Some NotFound
   \<and> GetCall configMapGVK ''team-b'' ''sample-configmap''
       \<notin> set (Calls (snd (snd (UpdateTargets 0 clusterWithPlainSource replikaWithGhost))))
   \<and> CreateCall configMapGVK ''team-b'' ''sample-configmap''
       \<notin> set (Calls (snd (snd (UpdateTargets 0 clusterWithPlainSource replikaWithGhost))))
   \<and> PatchCall configMapGVK ''team-b'' ''sample-configmap''
       \<notin> set (Calls (snd (snd (UpdateTargets 0 clusterWithPlainSource replikaWithGhost))))
   \<and> map MetaNamespace
       (ClusterObjects (snd (snd (UpdateTargets 0 clusterWithPlainSource replikaWithGhost))))
       = [''default'', ''team-a'']"
  by (simp add: UpdateTargets_with_ghost BuildTargets_with_ghost ghostTarget_fields
        sampleConfigMap_def)

lemma deleteTargetsLoop_append:
  "deleteTargetsLoop c (xs @ ys) =
     (case deleteTargetsLoop c xs of
        (Some e, c') \<Rightarrow> (Some e, c')
      | (None, c') \<Rightarrow> deleteTargetsLoop c' ys)"
  by (induction xs arbitrary: c) (auto split: prod.splits option.splits)

lemma Delete_success_objects:
  "Delete c item = (None, c') \<Longrightarrow>
   ClusterObjects c' =
     filter (\<lambda>stored. \<not> sameObject (GVK item) (MetaNamespace item) (MetaName item) stored)
       (ClusterObjects c)"
  by (auto simp: Delete_def request_def split: prod.splits option.splits if_splits)

lemma deleteTargetsLoop_success_objects:
  "deleteTargetsLoop c items = (None, c') \<Longrightarrow>
   ClusterObjects c' =
     filter (\<lambda>stored. \<forall>item \<in> set items.
                \<not> sameObject (GVK item) (MetaNamespace item) (MetaName item) stored)
       (ClusterObjects c)"
proof (induction items arbitrary: c)
  case Nil
  then show ?case by simp
next
  case (Cons item items)
  from Cons.prems obtain c1 where d: "Delete c item = (None, c1)"
    and l: "deleteTargetsLoop c1 items = (None, c')"
    by (auto split: prod.splits option.splits)
  from Cons.IH [OF l] Delete_success_objects [OF d] show ?case
    by (auto intro: filter_cong)
qed

lemma ListMatching_result:
  "ListMatching c gvk key val =
     ((case Fault c (length (Calls c)) (ListCall gvk key val) of
         Some e \<Rightarrow> ([], Some e)
       | None \<Rightarrow> (filter (matchingLabels gvk key val) (ClusterObjects c), None)),
      c\<lparr>Calls := Calls c @ [ListCall gvk key val]\<rparr>)"
  by (simp add: ListMatching_def request_def split: option.splits)

lemma Delete_success_state:
  "Delete c item = (None, c') \<Longrightarrow>
   c' = c\<lparr>ClusterObjects :=
            filter (\<lambda>stored. \<not> sameObject (GVK item) (MetaNamespace item) (MetaName item) stored)
              (ClusterObjects c),
          Calls := Calls c @ [DeleteCall (GVK item) (MetaNamespace item) (MetaName item)]\<rparr>"
  by (auto simp: Delete_def request_def split: prod.splits option.splits if_splits)

lemma Delete_failure_state:
  "Delete c item = (Some e, c') \<Longrightarrow>
   c' = c\<lparr>Calls := Calls c @ [DeleteCall (GVK item) (MetaNamespace item) (MetaName item)]\<rparr>"
  by (auto simp: Delete_def request_def split: prod.splits option.splits if_splits)

lemma deleteTargetsLoop_success_state:
  "deleteTargetsLoop c items = (None, c') \<Longrightarrow>
   c' = c\<lparr>ClusterObjects :=
            filter (\<lambda>stored. \<forall>item \<in> set items.
                       \<not> sameObject (GVK item) (MetaNamespace item) (MetaName item) stored)
              (ClusterObjects c),
          Calls := Calls c @ map (\<lambda>item. DeleteCall (GVK item) (MetaNamespace item)
                                             (MetaName item)) items\<rparr>"
proof (induction items arbitrary: c)
  case Nil
  then show ?case by simp
next
  case (Cons item items)
  from Cons.prems obtain c1 where d: "Delete c item = (None, c1)"
    and l: "deleteTargetsLoop c1 items = (None, c')"
    by (auto split: prod.splits option.splits)
  have "filter (\<lambda>stored. \<forall>i \<in> set items.
                   \<not> sameObject (GVK i) (MetaNamespace i) (MetaName i) stored)
          (filter (\<lambda>stored. \<not> sameObject (GVK item) (MetaNamespace item) (MetaName item) stored)
             (ClusterObjects c))
        = filter (\<lambda>stored. \<forall>i \<in> set (item # items).
                     \<not> sameObject (GVK i) (MetaNamespace i) (MetaName i) stored)
            (ClusterObjects c)"
    by (auto intro: filter_cong)
  with Cons.IH [OF l] Delete_success_state [OF d] show ?case
    by simp
qed

text \<open>
  C5, as amended. \<^verbatim>\<open>DeleteTargets\<close> asks once for the objects of the kind of the source,
  in any namespace, that carry the label \<^verbatim>\<open>part-of = <name of the Replika>\<close>, and requests
  their deletion one by one, in the order of the answer. When it returns no error, the
  requests it made are that list and one delete for each listed object, in that order;
  the cluster differs from the one before only in these requests and in its objects,
  which are those of before whose kind, namespace and name are not those of a listed
  object: so no object with the label is left and no other object is touched. When the
  objects before \<open>item\<close> were deleted and the deletion of \<open>item\<close> fails, it returns that
  error at once: the requests end with the failed delete, only the objects listed before
  \<open>item\<close> are gone, and the objects listed after \<open>item\<close> are not deleted.
\<close>

theorem DeleteTargets_by_label_stops_at_first_failure:
  assumes "Fault c (length (Calls c)) (ListCall (sourceGVK replika) resourceReplikaLabelPartOfKey
                                          (ObjectName replika)) = None"
    and "c1 = c\<lparr>Calls := Calls c @ [ListCall (sourceGVK replika) resourceReplikaLabelPartOfKey
                                       (ObjectName replika)]\<rparr>"
  shows "(fst (DeleteTargets c replika) = None \<longrightarrow>
            filter (matchingLabels (sourceGVK replika) resourceReplikaLabelPartOfKey
                      (ObjectName replika))
              (ClusterObjects (snd (DeleteTargets c replika))) = []
            \<and> snd (DeleteTargets c replika)
                = c\<lparr>ClusterObjects :=
                       filter (\<lambda>stored.
                                 \<forall>item \<in> set (filter (matchingLabels (sourceGVK replika)
                                                        resourceReplikaLabelPartOfKey
                                                        (ObjectName replika))
                                                  (ClusterObjects c)).
                                   \<not> sameObject (GVK item) (MetaNamespace item) (MetaName item)
                                       stored)
                         (ClusterObjects c),
                     Calls :=
                       Calls c
                       @ ListCall (sourceGVK replika) resourceReplikaLabelPartOfKey
                           (ObjectName replika)
                       # map (\<lambda>item. DeleteCall (GVK item) (MetaNamespace item) (MetaName item))
                           (filter (matchingLabels (sourceGVK replika)
                                      resourceReplikaLabelPartOfKey (ObjectName replika))
                              (ClusterObjects c))\<rparr>)
       \<and> (filter (matchingLabels (sourceGVK replika) resourceReplikaLabelPartOfKey
                    (ObjectName replika)) (ClusterObjects c) = before @ item # after
           \<and> deleteTargetsLoop c1 before = (None, c2)
           \<and> Delete c2 item = (Some e, c3)
          \<longrightarrow> DeleteTargets c replika = (Some e, c3)
              \<and> ClusterObjects c3 = ClusterObjects c2
              \<and> Calls c3 = Calls c2 @ [DeleteCall (GVK item) (MetaNamespace item) (MetaName item)]
              \<and> c3 = c\<lparr>ClusterObjects :=
                         filter (\<lambda>stored.
                                   \<forall>i \<in> set before.
                                     \<not> sameObject (GVK i) (MetaNamespace i) (MetaName i) stored)
                           (ClusterObjects c),
                       Calls :=
                         Calls c
                         @ ListCall (sourceGVK replika) resourceReplikaLabelPartOfKey
                             (ObjectName replika)
                         # map (\<lambda>i. DeleteCall (GVK i) (MetaNamespace i) (MetaName i))
                             (before @ [item])\<rparr>)"
proof (intro conjI impI)
  let ?P = "matchingLabels (sourceGVK replika) resourceReplikaLabelPartOfKey (ObjectName replika)"
  assume ok: "fst (DeleteTargets c replika) = None"
  obtain c' where loop: "deleteTargetsLoop c1 (filter ?P (ClusterObjects c)) = (None, c')"
    and res: "DeleteTargets c replika = (None, c')"
    using ok assms
    by (cases "deleteTargetsLoop c1 (filter ?P (ClusterObjects c))")
       (simp add: DeleteTargets_def ListMatching_result)
  have "ClusterObjects c' =
     filter (\<lambda>stored. \<forall>item \<in> set (filter ?P (ClusterObjects c)).
                \<not> sameObject (GVK item) (MetaNamespace item) (MetaName item) stored)
       (ClusterObjects c)"
    using deleteTargetsLoop_success_objects [OF loop] assms(2) by simp
  then have "filter ?P (ClusterObjects c') = []"
    by (auto simp: filter_empty_conv sameObject_def)
  with res show "filter ?P (ClusterObjects (snd (DeleteTargets c replika))) = []"
    by simp
  from deleteTargetsLoop_success_state [OF loop] assms(2) res
  show "snd (DeleteTargets c replika)
          = c\<lparr>ClusterObjects :=
                 filter (\<lambda>stored. \<forall>item \<in> set (filter ?P (ClusterObjects c)).
                            \<not> sameObject (GVK item) (MetaNamespace item) (MetaName item) stored)
                   (ClusterObjects c),
               Calls :=
                 Calls c
                 @ ListCall (sourceGVK replika) resourceReplikaLabelPartOfKey (ObjectName replika)
                 # map (\<lambda>item. DeleteCall (GVK item) (MetaNamespace item) (MetaName item))
                     (filter ?P (ClusterObjects c))\<rparr>"
    by simp
next
  let ?P = "matchingLabels (sourceGVK replika) resourceReplikaLabelPartOfKey (ObjectName replika)"
  assume h: "filter ?P (ClusterObjects c) = before @ item # after
           \<and> deleteTargetsLoop c1 before = (None, c2)
           \<and> Delete c2 item = (Some e, c3)"
  with assms show "DeleteTargets c replika = (Some e, c3)"
    by (simp add: DeleteTargets_def ListMatching_result deleteTargetsLoop_append)
  from h have c3: "c3 = c2\<lparr>Calls := Calls c2 @ [DeleteCall (GVK item) (MetaNamespace item)
                                                    (MetaName item)]\<rparr>"
    by (simp add: Delete_failure_state)
  from c3 show "ClusterObjects c3 = ClusterObjects c2"
    by simp
  from c3 show "Calls c3 = Calls c2 @ [DeleteCall (GVK item) (MetaNamespace item) (MetaName item)]"
    by simp
  from h have "c2 = c1\<lparr>ClusterObjects :=
            filter (\<lambda>stored. \<forall>i \<in> set before.
                       \<not> sameObject (GVK i) (MetaNamespace i) (MetaName i) stored)
              (ClusterObjects c1),
          Calls := Calls c1 @ map (\<lambda>i. DeleteCall (GVK i) (MetaNamespace i) (MetaName i))
                                before\<rparr>"
    by (simp add: deleteTargetsLoop_success_state)
  with c3 assms(2)
  show "c3 = c\<lparr>ClusterObjects :=
                 filter (\<lambda>stored. \<forall>i \<in> set before.
                            \<not> sameObject (GVK i) (MetaNamespace i) (MetaName i) stored)
                   (ClusterObjects c),
               Calls :=
                 Calls c
                 @ ListCall (sourceGVK replika) resourceReplikaLabelPartOfKey (ObjectName replika)
                 # map (\<lambda>i. DeleteCall (GVK i) (MetaNamespace i) (MetaName i))
                     (before @ [item])\<rparr>"
    by simp
qed

lemma replicatedConfigMap_fields:
  "GVK (replicatedConfigMap ns) = configMapGVK" "MetaNamespace (replicatedConfigMap ns) = ns"
  "MetaName (replicatedConfigMap ns) = ''sample-configmap''"
  "matchingLabels configMapGVK resourceReplikaLabelPartOfKey ''replika-sample''
     (replicatedConfigMap ns)"
  "\<not> matchingLabels configMapGVK resourceReplikaLabelPartOfKey ''replika-sample''
     (sampleConfigMap ns [''app'' \<mapsto> ''demo''])"
  "GVK (sampleConfigMap ns labels) = configMapGVK"
  "MetaNamespace (sampleConfigMap ns labels) = ns"
  "MetaName (sampleConfigMap ns labels) = ''sample-configmap''"
  by (simp_all add: replicatedConfigMap_def sampleConfigMap_def configMapGVK_def
        matchingLabels_def resourceReplikaLabelPartOfKey_def resourceReplikaLabelCreatedKey_def)

lemma sourceGVK_sample:
  "sourceGVK (sampleReplika t ns rin mall excl) = configMapGVK"
  "ObjectName (sampleReplika t ns rin mall excl) = ''replika-sample''"
  by (simp_all add: sourceGVK_def sampleReplika_def configMapGVK_def)

lemma clusterWithCopies_fields:
  "Calls (clusterWithCopies replikas) = []"
  "Fault (clusterWithCopies replikas) = (\<lambda>n k. None)"
  "ClusterObjects (clusterWithCopies replikas)
     = [sampleConfigMap ''default'' [''app'' \<mapsto> ''demo''],
        replicatedConfigMap ''team-a'', replicatedConfigMap ''team-b'']"
  by (simp_all add: clusterWithCopies_def sampleCluster_def)

lemma listed_copies:
  "filter (matchingLabels configMapGVK resourceReplikaLabelPartOfKey ''replika-sample'')
     (ClusterObjects (clusterWithCopies replikas))
   = [] @ replicatedConfigMap ''team-a'' # [replicatedConfigMap ''team-b'']"
  by (simp add: clusterWithCopies_fields replicatedConfigMap_fields)

lemma Delete_rejected:
  "Delete (clusterWithCopies Map.empty
             \<lparr>Fault := rejectDeleteInTeamA,
              Calls := [ListCall configMapGVK resourceReplikaLabelPartOfKey ''replika-sample'']\<rparr>)
     (replicatedConfigMap ''team-a'')
   = (Some (ApiError ''forbidden''),
      clusterWithCopies Map.empty
        \<lparr>Fault := rejectDeleteInTeamA,
         Calls := [ListCall configMapGVK resourceReplikaLabelPartOfKey ''replika-sample'',
                   DeleteCall configMapGVK ''team-a'' ''sample-configmap'']\<rparr>)"
  by (simp add: Delete_def request_def replicatedConfigMap_fields rejectDeleteInTeamA_def)

lemma DeleteTargets_all_deleted:
  "DeleteTargets (clusterWithCopies Map.empty) (sampleReplika ''20s'' ''default'' [] True [])
   = (None,
      clusterWithCopies Map.empty
        \<lparr>ClusterObjects := [sampleConfigMap ''default'' [''app'' \<mapsto> ''demo'']],
         Calls := [ListCall configMapGVK resourceReplikaLabelPartOfKey ''replika-sample'',
                   DeleteCall configMapGVK ''team-a'' ''sample-configmap'',
                   DeleteCall configMapGVK ''team-b'' ''sample-configmap'']\<rparr>)"
  by (simp add: DeleteTargets_def ListMatching_result Delete_def request_def sourceGVK_sample
        replicatedConfigMap_fields sameObject_def clusterWithCopies_def sampleCluster_def)

theorem DeleteTargets_by_label_stops_at_first_failure_witness:
  "fst (DeleteTargets (clusterWithCopies Map.empty)
          (sampleReplika ''20s'' ''default'' [] True [])) = None
   \<and> filter (matchingLabels configMapGVK resourceReplikaLabelPartOfKey ''replika-sample'')
       (ClusterObjects (snd (DeleteTargets (clusterWithCopies Map.empty)
                               (sampleReplika ''20s'' ''default'' [] True [])))) = []
   \<and> snd (DeleteTargets (clusterWithCopies Map.empty)
            (sampleReplika ''20s'' ''default'' [] True []))
     = clusterWithCopies Map.empty
         \<lparr>ClusterObjects := [sampleConfigMap ''default'' [''app'' \<mapsto> ''demo'']],
          Calls := [ListCall configMapGVK resourceReplikaLabelPartOfKey ''replika-sample'',
                    DeleteCall configMapGVK ''team-a'' ''sample-configmap'',
                    DeleteCall configMapGVK ''team-b'' ''sample-configmap'']\<rparr>
   \<and> DeleteTargets (clusterWithCopies Map.empty\<lparr>Fault := rejectDeleteInTeamA\<rparr>)
         (sampleReplika ''20s'' ''default'' [] True [])
     = (Some (ApiError ''forbidden''),
        clusterWithCopies Map.empty
          \<lparr>Fault := rejectDeleteInTeamA,
           Calls := [ListCall configMapGVK resourceReplikaLabelPartOfKey ''replika-sample'',
                     DeleteCall configMapGVK ''team-a'' ''sample-configmap'']\<rparr>)"
proof -
  let ?r = "sampleReplika ''20s'' ''default'' [] True []"
  let ?ok = "clusterWithCopies Map.empty"
  let ?bad = "clusterWithCopies Map.empty\<lparr>Fault := rejectDeleteInTeamA\<rparr>"
  let ?list = "ListCall configMapGVK resourceReplikaLabelPartOfKey ''replika-sample''"
  let ?P = "matchingLabels (sourceGVK ?r) resourceReplikaLabelPartOfKey (ObjectName ?r)"
  have f_ok: "Fault ?ok (length (Calls ?ok))
                (ListCall (sourceGVK ?r) resourceReplikaLabelPartOfKey (ObjectName ?r)) = None"
    by (simp add: clusterWithCopies_fields)
  have f_bad: "Fault ?bad (length (Calls ?bad))
                (ListCall (sourceGVK ?r) resourceReplikaLabelPartOfKey (ObjectName ?r)) = None"
    by (simp add: rejectDeleteInTeamA_def)
  have c1: "?bad\<lparr>Calls := [?list]\<rparr>
              = ?bad\<lparr>Calls := Calls ?bad @ [ListCall (sourceGVK ?r) resourceReplikaLabelPartOfKey
                                               (ObjectName ?r)]\<rparr>"
    by (simp add: sourceGVK_sample clusterWithCopies_fields)
  have pre: "filter ?P (ClusterObjects ?bad)
             = [] @ replicatedConfigMap ''team-a'' # [replicatedConfigMap ''team-b'']
           \<and> deleteTargetsLoop (?bad\<lparr>Calls := [?list]\<rparr>) [] = (None, ?bad\<lparr>Calls := [?list]\<rparr>)
           \<and> Delete (?bad\<lparr>Calls := [?list]\<rparr>) (replicatedConfigMap ''team-a'')
               = (Some (ApiError ''forbidden''),
                  ?bad\<lparr>Calls := [?list, DeleteCall configMapGVK ''team-a'' ''sample-configmap'']\<rparr>)"
    using Delete_rejected by (simp add: sourceGVK_sample listed_copies)
  have ok: "fst (DeleteTargets ?ok ?r) = None"
    by (simp add: DeleteTargets_all_deleted)
  from DeleteTargets_by_label_stops_at_first_failure [OF f_ok refl] ok
  have "filter ?P (ClusterObjects (snd (DeleteTargets ?ok ?r))) = []"
    and "snd (DeleteTargets ?ok ?r)
          = ?ok\<lparr>ClusterObjects :=
                   filter (\<lambda>stored. \<forall>item \<in> set (filter ?P (ClusterObjects ?ok)).
                              \<not> sameObject (GVK item) (MetaNamespace item) (MetaName item) stored)
                     (ClusterObjects ?ok),
                 Calls :=
                   Calls ?ok
                   @ ListCall (sourceGVK ?r) resourceReplikaLabelPartOfKey (ObjectName ?r)
                   # map (\<lambda>item. DeleteCall (GVK item) (MetaNamespace item) (MetaName item))
                       (filter ?P (ClusterObjects ?ok))\<rparr>"
    by blast+
  then have "filter ?P (ClusterObjects (snd (DeleteTargets ?ok ?r))) = []"
    and "snd (DeleteTargets ?ok ?r)
          = ?ok\<lparr>ClusterObjects := [sampleConfigMap ''default'' [''app'' \<mapsto> ''demo'']],
                 Calls := [?list, DeleteCall configMapGVK ''team-a'' ''sample-configmap'',
                           DeleteCall configMapGVK ''team-b'' ''sample-configmap'']\<rparr>"
    by (simp_all add: sourceGVK_sample clusterWithCopies_fields replicatedConfigMap_fields
          sameObject_def)
  moreover from DeleteTargets_by_label_stops_at_first_failure [OF f_bad c1] pre
  have "DeleteTargets ?bad ?r
     = (Some (ApiError ''forbidden''),
        ?bad\<lparr>Calls := [?list, DeleteCall configMapGVK ''team-a'' ''sample-configmap'']\<rparr>)"
    by blast
  ultimately show ?thesis
    using ok by (simp add: sourceGVK_sample)
qed

text \<open>
  C5 as stated fails: the list answers with the copies in team-a and team-b, the server
  rejects the deletion of the first, and no deletion of the second is requested: it stays
  in the cluster.
\<close>

theorem DeleteTargets_remaining_counterexample:
  "fst (DeleteTargets (clusterWithCopies Map.empty\<lparr>Fault := rejectDeleteInTeamA\<rparr>)
          (sampleReplika ''20s'' ''default'' [] True []))
     = Some (ApiError ''forbidden'')
   \<and> Calls (snd (DeleteTargets (clusterWithCopies Map.empty\<lparr>Fault := rejectDeleteInTeamA\<rparr>)
                   (sampleReplika ''20s'' ''default'' [] True [])))
     = [ListCall configMapGVK resourceReplikaLabelPartOfKey ''replika-sample'',
        DeleteCall configMapGVK ''team-a'' ''sample-configmap'']
   \<and> DeleteCall configMapGVK ''team-b'' ''sample-configmap''
       \<notin> set (Calls (snd (DeleteTargets
                             (clusterWithCopies Map.empty\<lparr>Fault := rejectDeleteInTeamA\<rparr>)
                             (sampleReplika ''20s'' ''default'' [] True []))))
   \<and> map MetaNamespace
       (ClusterObjects (snd (DeleteTargets
                               (clusterWithCopies Map.empty\<lparr>Fault := rejectDeleteInTeamA\<rparr>)
                               (sampleReplika ''20s'' ''default'' [] True []))))
     = [''default'', ''team-a'', ''team-b'']"
proof -
  have "DeleteTargets (clusterWithCopies Map.empty\<lparr>Fault := rejectDeleteInTeamA\<rparr>)
          (sampleReplika ''20s'' ''default'' [] True [])
     = (Some (ApiError ''forbidden''),
        clusterWithCopies Map.empty
          \<lparr>Fault := rejectDeleteInTeamA,
           Calls := [ListCall configMapGVK resourceReplikaLabelPartOfKey ''replika-sample'',
                     DeleteCall configMapGVK ''team-a'' ''sample-configmap'']\<rparr>)"
    using Delete_rejected
    by (simp add: DeleteTargets_def ListMatching_result sourceGVK_sample listed_copies
          rejectDeleteInTeamA_def clusterWithCopies_fields(1))
  then show ?thesis
    by (simp add: clusterWithCopies_fields replicatedConfigMap_fields)
qed

section \<open>What the requests on objects leave alone\<close>

lemma objectsOnly_refl: "objectsOnly c c"
  by (simp add: objectsOnly_def)

lemma objectsOnly_trans: "objectsOnly c c' \<Longrightarrow> objectsOnly c' c'' \<Longrightarrow> objectsOnly c c''"
  by (simp add: objectsOnly_def)

lemma Get_objectsOnly: "Get c ns nm obj = (res, c') \<Longrightarrow> objectsOnly c c'"
  by (auto simp: Get_def request_def objectsOnly_def split: prod.splits option.splits)

lemma Create_objectsOnly: "Create c obj = (res, c') \<Longrightarrow> objectsOnly c c'"
  by (auto simp: Create_def request_def objectsOnly_def
           split: prod.splits option.splits if_splits)

lemma Patch_objectsOnly: "Patch c obj = (res, c') \<Longrightarrow> objectsOnly c c'"
  by (auto simp: Patch_def request_def objectsOnly_def
           split: prod.splits option.splits if_splits)

lemma Delete_objectsOnly: "Delete c obj = (res, c') \<Longrightarrow> objectsOnly c c'"
  by (auto simp: Delete_def request_def objectsOnly_def
           split: prod.splits option.splits if_splits)

lemma ListMatching_objectsOnly: "ListMatching c gvk key val = (res, c') \<Longrightarrow> objectsOnly c c'"
  by (auto simp: ListMatching_result objectsOnly_def)

lemma GetNamespaces_objectsOnly: "GetNamespaces c replika = (res, c') \<Longrightarrow> objectsOnly c c'"
  by (auto simp: GetNamespaces_def ListNamespaces_result objectsOnly_def
           split: if_splits option.splits prod.splits)

lemma GetReplika_objectsOnly: "GetReplika c req = (res, c') \<Longrightarrow> objectsOnly c c'"
  by (auto simp: GetReplika_def request_def objectsOnly_def split: prod.splits option.splits)

lemma GetReplika_stored:
  "GetReplika c req = ((replika, None), c') \<Longrightarrow> ClusterReplikas c req = Some replika"
  by (auto simp: GetReplika_def request_def split: prod.splits option.splits)

lemma UpdateTarget_objectsOnly: "UpdateTarget c target = (res, c') \<Longrightarrow> objectsOnly c c'"
  by (auto simp: UpdateTarget_def split: prod.splits option.splits
           dest!: Get_objectsOnly Create_objectsOnly Patch_objectsOnly
           intro: objectsOnly_trans)

lemma updateTargetsLoop_objectsOnly:
  "updateTargetsLoop now c replika targets = (res, replika', c') \<Longrightarrow> objectsOnly c c'"
proof (induction targets arbitrary: c)
  case Nil
  then show ?case by (simp add: objectsOnly_refl)
next
  case (Cons target targets)
  obtain e c1 where u: "UpdateTarget c target = (e, c1)"
    by (cases "UpdateTarget c target")
  from u have o: "objectsOnly c c1" by (rule UpdateTarget_objectsOnly)
  show ?case
  proof (cases e)
    case None
    with u Cons.prems have "updateTargetsLoop now c1 replika targets = (res, replika', c')"
      by simp
    from Cons.IH [OF this] o show ?thesis by (rule objectsOnly_trans [rotated])
  next
    case (Some err)
    with u Cons.prems o show ?thesis by simp
  qed
qed

lemma BuildTargets_objectsOnly:
  "BuildTargets now c replika = (res, replika', c') \<Longrightarrow> objectsOnly c c'"
  by (auto simp: BuildTargets_def GetSource_def split: prod.splits option.splits
           dest!: Get_objectsOnly GetNamespaces_objectsOnly intro: objectsOnly_trans)

lemma UpdateTargets_objectsOnly:
  "UpdateTargets now c replika = (res, replika', c') \<Longrightarrow> objectsOnly c c'"
  by (auto simp: UpdateTargets_def split: prod.splits option.splits
           dest!: BuildTargets_objectsOnly updateTargetsLoop_objectsOnly
           intro: objectsOnly_trans)

lemma deleteTargetsLoop_objectsOnly:
  "deleteTargetsLoop c items = (res, c') \<Longrightarrow> objectsOnly c c'"
proof (induction items arbitrary: c)
  case Nil
  then show ?case by (simp add: objectsOnly_refl)
next
  case (Cons item items)
  obtain e c1 where d: "Delete c item = (e, c1)"
    by (cases "Delete c item")
  from d have o: "objectsOnly c c1" by (rule Delete_objectsOnly)
  show ?case
  proof (cases e)
    case None
    with d Cons.prems have "deleteTargetsLoop c1 items = (res, c')"
      by simp
    from Cons.IH [OF this] o show ?thesis by (rule objectsOnly_trans [rotated])
  next
    case (Some err)
    with d Cons.prems o show ?thesis by simp
  qed
qed

lemma DeleteTargets_objectsOnly:
  "DeleteTargets c replika = (res, c') \<Longrightarrow> objectsOnly c c'"
  by (auto simp: DeleteTargets_def split: prod.splits option.splits
           dest!: ListMatching_objectsOnly deleteTargetsLoop_objectsOnly
           intro: objectsOnly_trans)

section \<open>The deletion branch of Reconcile\<close>

text \<open>
  C6. The Replika is loaded, its deletion timestamp is set and it carries the finalizer.
  When \<^verbatim>\<open>DeleteTargets\<close> returns an error, \<^verbatim>\<open>Reconcile\<close> returns that error, the cluster
  is the one \<^verbatim>\<open>DeleteTargets\<close> left, the stored Replika is the loaded one, finalizer
  included, and no update of a Replika was requested. When \<^verbatim>\<open>DeleteTargets\<close> returns no
  error, \<^verbatim>\<open>Reconcile\<close> requests the update of the Replika without the finalizer.
\<close>

theorem Reconcile_removes_finalizer_after_DeleteTargets:
  assumes "GetReplika c req = ((replika, None), c1)"
    and "DeletionTimestamp replika \<noteq> None"
    and "ContainsFinalizer replika replikaFinalizer"
    and "DeleteTargets c1 replika = (derr, c2)"
  shows "(derr \<noteq> None \<longrightarrow>
            Reconcile now ParseDuration c req = ((emptyResult, derr), c2)
            \<and> ClusterReplikas c2 req = Some replika
            \<and> filter isUpdateReplikaCall (Calls c2) = filter isUpdateReplikaCall (Calls c))
       \<and> (derr = None \<longrightarrow>
            Reconcile now ParseDuration c req =
              ((emptyResult, None),
               snd (UpdateReplika c2 (RemoveFinalizer replika replikaFinalizer)))
            \<and> \<not> ContainsFinalizer (RemoveFinalizer replika replikaFinalizer) replikaFinalizer
            \<and> Calls (snd (UpdateReplika c2 (RemoveFinalizer replika replikaFinalizer)))
                = Calls c2 @ [UpdateReplikaCall (ObjectNamespace replika) (ObjectName replika)])"
proof (intro conjI impI)
  assume failed: "derr \<noteq> None"
  with assms show "Reconcile now ParseDuration c req = ((emptyResult, derr), c2)"
    by (auto simp: Reconcile_def)
  from GetReplika_objectsOnly [OF assms(1)] DeleteTargets_objectsOnly [OF assms(4)]
  have o: "objectsOnly c c2" by (rule objectsOnly_trans)
  with GetReplika_stored [OF assms(1)] show "ClusterReplikas c2 req = Some replika"
    by (simp add: objectsOnly_def)
  from o show "filter isUpdateReplikaCall (Calls c2) = filter isUpdateReplikaCall (Calls c)"
    by (simp add: objectsOnly_def)
next
  assume ok: "derr = None"
  with assms show "Reconcile now ParseDuration c req =
              ((emptyResult, None),
               snd (UpdateReplika c2 (RemoveFinalizer replika replikaFinalizer)))"
    by (simp add: Reconcile_def split: prod.splits)
  show "\<not> ContainsFinalizer (RemoveFinalizer replika replikaFinalizer) replikaFinalizer"
    by (simp add: ContainsFinalizer_def RemoveFinalizer_def list_ex_iff)
  show "Calls (snd (UpdateReplika c2 (RemoveFinalizer replika replikaFinalizer)))
          = Calls c2 @ [UpdateReplikaCall (ObjectNamespace replika) (ObjectName replika)]"
    by (simp add: UpdateReplika_def RemoveFinalizer_def request_def Let_def
             split: prod.splits option.splits)
qed

lemma GetReplika_deleting:
  "GetReplika (clusterWithCopies [sampleRequest \<mapsto> deletingReplika]\<lparr>Fault := f\<rparr>) sampleRequest
     = ((deletingReplika, f 0 (GetReplikaCall ''replika'' ''replika-sample'')),
        clusterWithCopies [sampleRequest \<mapsto> deletingReplika]
          \<lparr>Fault := f, Calls := [GetReplikaCall ''replika'' ''replika-sample'']\<rparr>)
   \<or> f 0 (GetReplikaCall ''replika'' ''replika-sample'') \<noteq> None"
  by (auto simp: GetReplika_def request_def clusterWithCopies_def sampleCluster_def
        sampleRequest_def)

lemma deletingReplika_fields:
  "DeletionTimestamp deletingReplika = Some 5"
  "ContainsFinalizer deletingReplika replikaFinalizer"
  "sourceGVK deletingReplika = configMapGVK"
  "ObjectName deletingReplika = ''replika-sample''"
  "ObjectNamespace deletingReplika = ''replika''"
  "RemoveFinalizer deletingReplika replikaFinalizer
     = (sampleReplika ''20s'' ''default'' [] True [])\<lparr>DeletionTimestamp := Some 5\<rparr>"
  by (simp_all add: deletingReplika_def ContainsFinalizer_def RemoveFinalizer_def
        sampleReplika_def sourceGVK_def configMapGVK_def)

lemma DeleteTargets_deleting_rejected:
  "DeleteTargets
     (clusterWithCopies [sampleRequest \<mapsto> deletingReplika]
        \<lparr>Fault := rejectDeleteInTeamA, Calls := [GetReplikaCall ''replika'' ''replika-sample'']\<rparr>)
     deletingReplika
   = (Some (ApiError ''forbidden''),
      clusterWithCopies [sampleRequest \<mapsto> deletingReplika]
        \<lparr>Fault := rejectDeleteInTeamA,
         Calls := [GetReplikaCall ''replika'' ''replika-sample'',
                   ListCall configMapGVK resourceReplikaLabelPartOfKey ''replika-sample'',
                   DeleteCall configMapGVK ''team-a'' ''sample-configmap'']\<rparr>)"
  by (simp add: DeleteTargets_def ListMatching_result deletingReplika_fields
        clusterWithCopies_fields replicatedConfigMap_fields rejectDeleteInTeamA_def
        Delete_def request_def)

lemma DeleteTargets_deleting_accepted:
  "DeleteTargets
     (clusterWithCopies [sampleRequest \<mapsto> deletingReplika]
        \<lparr>Calls := [GetReplikaCall ''replika'' ''replika-sample'']\<rparr>)
     deletingReplika
   = (None,
      clusterWithCopies [sampleRequest \<mapsto> deletingReplika]
        \<lparr>ClusterObjects := [sampleConfigMap ''default'' [''app'' \<mapsto> ''demo'']],
         Calls := [GetReplikaCall ''replika'' ''replika-sample'',
                   ListCall configMapGVK resourceReplikaLabelPartOfKey ''replika-sample'',
                   DeleteCall configMapGVK ''team-a'' ''sample-configmap'',
                   DeleteCall configMapGVK ''team-b'' ''sample-configmap'']\<rparr>)"
  by (simp add: DeleteTargets_def ListMatching_result deletingReplika_fields
        clusterWithCopies_fields replicatedConfigMap_fields sameObject_def
        Delete_def request_def)

theorem Reconcile_removes_finalizer_after_DeleteTargets_witness:
  "fst (Reconcile 0 sampleParseDuration
          (clusterWithCopies [sampleRequest \<mapsto> deletingReplika]\<lparr>Fault := rejectDeleteInTeamA\<rparr>)
          sampleRequest)
     = (emptyResult, Some (ApiError ''forbidden''))
   \<and> ClusterReplikas
       (snd (Reconcile 0 sampleParseDuration
               (clusterWithCopies [sampleRequest \<mapsto> deletingReplika]
                  \<lparr>Fault := rejectDeleteInTeamA\<rparr>)
               sampleRequest)) sampleRequest
     = Some deletingReplika
   \<and> ContainsFinalizer deletingReplika replikaFinalizer
   \<and> fst (Reconcile 0 sampleParseDuration
            (clusterWithCopies [sampleRequest \<mapsto> deletingReplika]) sampleRequest)
     = (emptyResult, None)
   \<and> ClusterReplikas
       (snd (Reconcile 0 sampleParseDuration
               (clusterWithCopies [sampleRequest \<mapsto> deletingReplika]) sampleRequest))
       sampleRequest
     = None"
proof -
  let ?stored = "[sampleRequest \<mapsto> deletingReplika]"
  let ?bad = "clusterWithCopies ?stored\<lparr>Fault := rejectDeleteInTeamA\<rparr>"
  let ?ok = "clusterWithCopies ?stored"
  let ?get = "GetReplikaCall ''replika'' ''replika-sample''"
  have g_bad: "GetReplika ?bad sampleRequest = ((deletingReplika, None), ?bad\<lparr>Calls := [?get]\<rparr>)"
    using GetReplika_deleting [of rejectDeleteInTeamA]
    by (simp add: rejectDeleteInTeamA_def)
  have g_ok: "GetReplika ?ok sampleRequest = ((deletingReplika, None), ?ok\<lparr>Calls := [?get]\<rparr>)"
    by (simp add: GetReplika_def request_def clusterWithCopies_def sampleCluster_def
          sampleRequest_def)
  have ts: "DeletionTimestamp deletingReplika \<noteq> None"
    by (simp add: deletingReplika_fields)
  note bad = Reconcile_removes_finalizer_after_DeleteTargets
               [OF g_bad ts deletingReplika_fields(2) DeleteTargets_deleting_rejected,
                of 0 sampleParseDuration]
  note ok = Reconcile_removes_finalizer_after_DeleteTargets
               [OF g_ok ts deletingReplika_fields(2) DeleteTargets_deleting_accepted,
                of 0 sampleParseDuration]
  from bad have "Reconcile 0 sampleParseDuration ?bad sampleRequest
     = ((emptyResult, Some (ApiError ''forbidden'')),
        clusterWithCopies ?stored
        \<lparr>Fault := rejectDeleteInTeamA,
         Calls := [?get, ListCall configMapGVK resourceReplikaLabelPartOfKey ''replika-sample'',
                   DeleteCall configMapGVK ''team-a'' ''sample-configmap'']\<rparr>)"
    by simp
  moreover from ok have "Reconcile 0 sampleParseDuration ?ok sampleRequest
     = ((emptyResult, None),
        snd (UpdateReplika
          (clusterWithCopies ?stored
            \<lparr>ClusterObjects := [sampleConfigMap ''default'' [''app'' \<mapsto> ''demo'']],
             Calls := [?get,
                       ListCall configMapGVK resourceReplikaLabelPartOfKey ''replika-sample'',
                       DeleteCall configMapGVK ''team-a'' ''sample-configmap'',
                       DeleteCall configMapGVK ''team-b'' ''sample-configmap'']\<rparr>)
          (RemoveFinalizer deletingReplika replikaFinalizer)))"
    by simp
  ultimately show ?thesis
    by (simp add: deletingReplika_fields UpdateReplika_def request_def Let_def
          clusterWithCopies_def sampleCluster_def sampleRequest_def sampleReplika_def)
qed

section \<open>A synchronisation time that does not parse\<close>

lemma UpdateReplikaCondition_keeps:
  "Spec (UpdateReplikaCondition now replika condition) = Spec replika"
  "ObjectName (UpdateReplikaCondition now replika condition) = ObjectName replika"
  by (simp_all add: UpdateReplikaCondition_def Let_def split: option.splits)

lemma BuildTargets_keeps:
  "BuildTargets now c replika = (res, replika', c') \<Longrightarrow>
   Spec replika' = Spec replika \<and> ObjectName replika' = ObjectName replika"
  by (auto simp: BuildTargets_def UpdateReplikaCondition_keeps split: prod.splits option.splits)

lemma updateTargetsLoop_keeps:
  "updateTargetsLoop now c replika targets = (res, replika', c') \<Longrightarrow>
   Spec replika' = Spec replika \<and> ObjectName replika' = ObjectName replika"
  by (induction targets arbitrary: c)
     (auto simp: UpdateReplikaCondition_keeps split: prod.splits option.splits)

lemma UpdateTargets_keeps:
  assumes "UpdateTargets now c replika = (res, replika', c')"
  shows "Spec replika' = Spec replika \<and> ObjectName replika' = ObjectName replika"
proof -
  obtain targets e r1 c1 where b: "BuildTargets now c replika = ((targets, e), r1, c1)"
    by (metis prod.exhaust)
  show ?thesis
  proof (cases e)
    case None
    with assms b have "updateTargetsLoop now c1 r1 targets = (res, replika', c')"
      by (simp add: UpdateTargets_def)
    from updateTargetsLoop_keeps [OF this] BuildTargets_keeps [OF b] show ?thesis by simp
  next
    case (Some err)
    with assms b have "replika' = r1" by (simp add: UpdateTargets_def)
    with BuildTargets_keeps [OF b] show ?thesis by simp
  qed
qed

lemma attachFinalizer_keeps:
  "attachFinalizer c replika = ((replika', err), c') \<Longrightarrow>
   Spec replika' = Spec replika \<and> ObjectName replika' = ObjectName replika"
  by (auto simp: attachFinalizer_def UpdateReplika_def AddFinalizer_def request_def Let_def
           split: if_splits prod.splits option.splits)

lemma synchronize_unparsable:
  assumes "ParseDuration (Time (Synchronization (Spec replika))) = Inl e"
  shows "fst (fst (synchronize now ParseDuration c replika)) = emptyResult"
proof -
  obtain err r1 c1 where u: "UpdateTargets now c replika = (err, r1, c1)"
    by (metis prod.exhaust)
  from UpdateTargets_keeps [OF u] assms
  have "ParseDuration (Time (Synchronization (Spec r1))) = Inl e" by simp
  with u show ?thesis
    by (cases err) (simp_all add: synchronize_def GetSynchronizationTime_def)
qed

lemma UpdateTargets_success_replika:
  assumes "UpdateTargets now c replika = (None, replika', c')"
  shows "replika' = replika"
proof -
  obtain targets e r1 c1 where b: "BuildTargets now c replika = ((targets, e), r1, c1)"
    by (metis prod.exhaust)
  show ?thesis
  proof (cases e)
    case None
    with b have "r1 = replika"
      by (auto simp: BuildTargets_def split: prod.splits option.splits)
    moreover from assms b None have "updateTargetsLoop now c1 r1 targets = (None, replika', c')"
      by (simp add: UpdateTargets_def)
    ultimately show ?thesis
      by (simp add: updateTargetsLoop_success_replika)
  next
    case (Some err)
    with assms b show ?thesis by (simp add: UpdateTargets_def)
  qed
qed

text \<open>
  C9, as amended. When \<^verbatim>\<open>spec.synchronization.time\<close> does not parse,
  \<^verbatim>\<open>GetSynchronizationTime\<close> returns the default delay of 15 seconds together with a parse
  error. \<^verbatim>\<open>Reconcile\<close> does not use that delay: the schedule directive it returns is the
  empty one. On the pass that loads the Replika, finds it not deleted, has the finalizer
  attached and updates the targets without error, \<^verbatim>\<open>Reconcile\<close> ends right after
  \<^verbatim>\<open>UpdateTargets\<close>: what follows is the deferred function alone, run on the cluster
  \<^verbatim>\<open>UpdateTargets\<close> left and on the Replika as it was before \<^verbatim>\<open>UpdateTargets\<close>, so
  without the success condition and without any condition for the parse failure; the
  result is the empty directive with the error the deferred function leaves.
\<close>

theorem Reconcile_unparsable_time_ends_pass:
  assumes "ParseDuration (Time (Synchronization (Spec replika))) = Inl e"
  shows "GetSynchronizationTime ParseDuration replika
           = (defaultSynchronizationTime, Some (ParseSyncTimeError (ObjectName replika)))
       \<and> (UpdateTargets now c2 replika = (None, replika3, c3) \<longrightarrow>
            synchronize now ParseDuration c2 replika
              = ((emptyResult, Some (ParseSyncTimeError (ObjectName replika))), replika3, c3))
       \<and> (GetReplika c req = ((replika, None), c1) \<longrightarrow>
            fst (fst (Reconcile now ParseDuration c req)) = emptyResult)
       \<and> (GetReplika c req = ((replika, None), c1)
            \<and> DeletionTimestamp replika = None
            \<and> attachFinalizer c1 replika = ((replika2, None), c2')
            \<and> UpdateTargets now c2' replika2 = (None, replika3', c3')
          \<longrightarrow> Reconcile now ParseDuration c req
                = ((emptyResult, fst (deferredStatusUpdate c3' req replika2)),
                   snd (deferredStatusUpdate c3' req replika2))
              \<and> replika3' = replika2
              \<and> synchronize now ParseDuration c2' replika2
                  = ((emptyResult, Some (ParseSyncTimeError (ObjectName replika))), replika2, c3'))"
proof (intro conjI impI)
  from assms show "GetSynchronizationTime ParseDuration replika
           = (defaultSynchronizationTime, Some (ParseSyncTimeError (ObjectName replika)))"
    by (simp add: GetSynchronizationTime_def)
next
  assume u: "UpdateTargets now c2 replika = (None, replika3, c3)"
  from UpdateTargets_keeps [OF u] assms
  have "ParseDuration (Time (Synchronization (Spec replika3))) = Inl e"
    and "ObjectName replika3 = ObjectName replika"
    by simp_all
  with u show "synchronize now ParseDuration c2 replika
              = ((emptyResult, Some (ParseSyncTimeError (ObjectName replika))), replika3, c3)"
    by (simp add: synchronize_def GetSynchronizationTime_def)
next
  assume g: "GetReplika c req = ((replika, None), c1)"
  show "fst (fst (Reconcile now ParseDuration c req)) = emptyResult"
  proof (cases "DeletionTimestamp replika \<noteq> None")
    case True
    with g show ?thesis
      by (simp add: Reconcile_def split: prod.splits option.splits)
  next
    case False
    obtain r2 err c2' where a: "attachFinalizer c1 replika = ((r2, err), c2')"
      by (metis prod.exhaust)
    show ?thesis
    proof (cases err)
      case (Some x)
      with g False a show ?thesis by (simp add: Reconcile_def)
    next
      case None
      from attachFinalizer_keeps [OF a] assms
      have "ParseDuration (Time (Synchronization (Spec r2))) = Inl e" by simp
      from synchronize_unparsable [of ParseDuration r2 e now c2', OF this]
      have empty: "fst (fst (synchronize now ParseDuration c2' r2)) = emptyResult" .
      obtain result serr r3 c3 where
        s: "synchronize now ParseDuration c2' r2 = ((result, serr), r3, c3)"
        by (metis prod.exhaust)
      obtain derr c4 where d: "deferredStatusUpdate c3 req r3 = (derr, c4)"
        by (cases "deferredStatusUpdate c3 req r3")
      from g False a None s d empty show ?thesis
        by (simp add: Reconcile_def)
    qed
  qed
next
  assume h: "GetReplika c req = ((replika, None), c1)
            \<and> DeletionTimestamp replika = None
            \<and> attachFinalizer c1 replika = ((replika2, None), c2')
            \<and> UpdateTargets now c2' replika2 = (None, replika3', c3')"
  then have a: "attachFinalizer c1 replika = ((replika2, None), c2')"
    and u: "UpdateTargets now c2' replika2 = (None, replika3', c3')"
    by simp_all
  from u show same: "replika3' = replika2"
    by (rule UpdateTargets_success_replika)
  from attachFinalizer_keeps [OF a] assms
  have p2: "ParseDuration (Time (Synchronization (Spec replika2))) = Inl e"
    and n2: "ObjectName replika2 = ObjectName replika"
    by simp_all
  from u same p2 n2
  show s: "synchronize now ParseDuration c2' replika2
             = ((emptyResult, Some (ParseSyncTimeError (ObjectName replika))), replika2, c3')"
    by (simp add: synchronize_def GetSynchronizationTime_def)
  obtain derr c4 where d: "deferredStatusUpdate c3' req replika2 = (derr, c4)"
    by (cases "deferredStatusUpdate c3' req replika2")
  from h s d show "Reconcile now ParseDuration c req
                = ((emptyResult, fst (deferredStatusUpdate c3' req replika2)),
                   snd (deferredStatusUpdate c3' req replika2))"
    by (simp add: Reconcile_def)
qed

lemma UpdateTargets_with_bad_time:
  "UpdateTargets 0
     (clusterWithReplika replikaWithBadTime
        \<lparr>Calls := [GetReplikaCall ''replika'' ''replika-sample'']\<rparr>)
     replikaWithBadTime
   = (None, replikaWithBadTime,
      clusterWithReplika replikaWithBadTime
        \<lparr>ClusterObjects :=
           [sampleConfigMap ''default'' [''app'' \<mapsto> ''demo''],
            SetNamespace ''team-a''
              (buildTarget replikaWithBadTime
                 (sampleConfigMap ''default'' [''app'' \<mapsto> ''demo'']))],
         Calls := [GetReplikaCall ''replika'' ''replika-sample'',
                   GetCall configMapGVK ''default'' ''sample-configmap'',
                   GetCall configMapGVK ''team-a'' ''sample-configmap'',
                   CreateCall configMapGVK ''team-a'' ''sample-configmap'']\<rparr>)"
  by (simp add: request_def clusterWithReplika_def
        sampleCluster_def replikaWithBadTime_def sampleReplika_def
        UpdateTargets_def BuildTargets_def GetSource_def Get_def sourceGVK_def
        emptyUnstructured_def sameObject_def sampleConfigMap_def GetNamespaces_def
        lowerAlnum_def dashLowerAlnum_def UpdateTarget_def Create_def fourNamespaces_def
        SetNamespace_def buildTarget_def SetLabels_def SetAnnotations_def SetName_def
        RemoveStatus_def RemoveMetadata_def configMapGVK_def)

lemma Reconcile_with_bad_time:
  "Reconcile 0 sampleParseDuration (clusterWithReplika replikaWithBadTime) sampleRequest
     = ((emptyResult, None),
        clusterWithReplika replikaWithBadTime
          \<lparr>ClusterObjects :=
             [sampleConfigMap ''default'' [''app'' \<mapsto> ''demo''],
              SetNamespace ''team-a''
                (buildTarget replikaWithBadTime
                   (sampleConfigMap ''default'' [''app'' \<mapsto> ''demo'']))],
           Calls := [GetReplikaCall ''replika'' ''replika-sample'',
                     GetCall configMapGVK ''default'' ''sample-configmap'',
                     GetCall configMapGVK ''team-a'' ''sample-configmap'',
                     CreateCall configMapGVK ''team-a'' ''sample-configmap'',
                     GetReplikaCall ''replika'' ''replika-sample'']\<rparr>)"
  by (simp add: Reconcile_def GetReplika_def request_def clusterWithReplika_def
        sampleCluster_def sampleRequest_def replikaWithBadTime_def sampleReplika_def
        attachFinalizer_def ContainsFinalizer_def replikaFinalizer_def synchronize_def
        UpdateTargets_def BuildTargets_def GetSource_def Get_def sourceGVK_def
        emptyUnstructured_def sameObject_def sampleConfigMap_def GetNamespaces_def
        lowerAlnum_def dashLowerAlnum_def UpdateTarget_def Create_def fourNamespaces_def
        SetNamespace_def buildTarget_def SetLabels_def SetAnnotations_def SetName_def
        RemoveStatus_def RemoveMetadata_def GetSynchronizationTime_def
        sampleParseDuration_def deferredStatusUpdate_def SameReplikaConditions_def
        configMapGVK_def)

theorem Reconcile_unparsable_time_ends_pass_witness:
  "sampleParseDuration (Time (Synchronization (Spec replikaWithBadTime)))
     = Inl (ApiError ''time: invalid duration'')
   \<and> GetSynchronizationTime sampleParseDuration replikaWithBadTime
     = (15000000000, Some (ParseSyncTimeError ''replika-sample''))
   \<and> fst (fst (Reconcile 0 sampleParseDuration (clusterWithReplika replikaWithBadTime)
                 sampleRequest))
     = \<lparr>Requeue = False, RequeueAfter = 0\<rparr>
   \<and> GetReplika (clusterWithReplika replikaWithBadTime) sampleRequest
     = ((replikaWithBadTime, None),
        clusterWithReplika replikaWithBadTime
          \<lparr>Calls := [GetReplikaCall ''replika'' ''replika-sample'']\<rparr>)
   \<and> DeletionTimestamp replikaWithBadTime = None
   \<and> attachFinalizer
       (clusterWithReplika replikaWithBadTime
          \<lparr>Calls := [GetReplikaCall ''replika'' ''replika-sample'']\<rparr>)
       replikaWithBadTime
     = ((replikaWithBadTime, None),
        clusterWithReplika replikaWithBadTime
          \<lparr>Calls := [GetReplikaCall ''replika'' ''replika-sample'']\<rparr>)
   \<and> fst (UpdateTargets 0
            (clusterWithReplika replikaWithBadTime
               \<lparr>Calls := [GetReplikaCall ''replika'' ''replika-sample'']\<rparr>)
            replikaWithBadTime) = None
   \<and> Reconcile 0 sampleParseDuration (clusterWithReplika replikaWithBadTime) sampleRequest
     = ((emptyResult, None),
        clusterWithReplika replikaWithBadTime
          \<lparr>ClusterObjects :=
             [sampleConfigMap ''default'' [''app'' \<mapsto> ''demo''],
              SetNamespace ''team-a''
                (buildTarget replikaWithBadTime
                   (sampleConfigMap ''default'' [''app'' \<mapsto> ''demo'']))],
           Calls := [GetReplikaCall ''replika'' ''replika-sample'',
                     GetCall configMapGVK ''default'' ''sample-configmap'',
                     GetCall configMapGVK ''team-a'' ''sample-configmap'',
                     CreateCall configMapGVK ''team-a'' ''sample-configmap'',
                     GetReplikaCall ''replika'' ''replika-sample'']\<rparr>)"
proof -
  let ?c = "clusterWithReplika replikaWithBadTime"
  let ?c1 = "?c\<lparr>Calls := [GetReplikaCall ''replika'' ''replika-sample'']\<rparr>"
  let ?c3 = "?c\<lparr>ClusterObjects :=
             [sampleConfigMap ''default'' [''app'' \<mapsto> ''demo''],
              SetNamespace ''team-a''
                (buildTarget replikaWithBadTime
                   (sampleConfigMap ''default'' [''app'' \<mapsto> ''demo'']))],
           Calls := [GetReplikaCall ''replika'' ''replika-sample'',
                     GetCall configMapGVK ''default'' ''sample-configmap'',
                     GetCall configMapGVK ''team-a'' ''sample-configmap'',
                     CreateCall configMapGVK ''team-a'' ''sample-configmap'']\<rparr>"
  have p: "sampleParseDuration (Time (Synchronization (Spec replikaWithBadTime)))
             = Inl (ApiError ''time: invalid duration'')"
    by (simp add: sampleParseDuration_def replikaWithBadTime_def sampleReplika_def)
  have g: "GetReplika ?c sampleRequest = ((replikaWithBadTime, None), ?c1)"
    by (simp add: GetReplika_def request_def clusterWithReplika_def sampleCluster_def
          sampleRequest_def)
  have ts: "DeletionTimestamp replikaWithBadTime = None"
    by (simp add: replikaWithBadTime_def sampleReplika_def)
  have a: "attachFinalizer ?c1 replikaWithBadTime = ((replikaWithBadTime, None), ?c1)"
    by (simp add: attachFinalizer_def ContainsFinalizer_def replikaWithBadTime_def)
  have d: "deferredStatusUpdate ?c3 sampleRequest replikaWithBadTime
             = (None, ?c3\<lparr>Calls := Calls ?c3 @ [GetReplikaCall ''replika'' ''replika-sample'']\<rparr>)"
    by (simp add: deferredStatusUpdate_def SameReplikaConditions_def GetReplika_def request_def
          clusterWithReplika_def sampleCluster_def sampleRequest_def replikaWithBadTime_def
          sampleReplika_def)
  note inst = Reconcile_unparsable_time_ends_pass
         [of sampleParseDuration replikaWithBadTime _ 0 _ _ _ ?c sampleRequest ?c1
             replikaWithBadTime ?c1 replikaWithBadTime ?c3, OF p]
  from inst g ts a UpdateTargets_with_bad_time
  have "Reconcile 0 sampleParseDuration ?c sampleRequest
          = ((emptyResult, fst (deferredStatusUpdate ?c3 sampleRequest replikaWithBadTime)),
             snd (deferredStatusUpdate ?c3 sampleRequest replikaWithBadTime))"
    by blast
  then have r: "Reconcile 0 sampleParseDuration ?c sampleRequest
          = ((emptyResult, None),
             ?c3\<lparr>Calls := Calls ?c3 @ [GetReplikaCall ''replika'' ''replika-sample'']\<rparr>)"
    by (simp only: d fst_conv snd_conv)
  from inst have "GetSynchronizationTime sampleParseDuration replikaWithBadTime
     = (defaultSynchronizationTime, Some (ParseSyncTimeError (ObjectName replikaWithBadTime)))"
    by blast
  moreover have "ObjectName replikaWithBadTime = ''replika-sample''"
    by (simp add: replikaWithBadTime_def sampleReplika_def)
  ultimately have gs: "GetSynchronizationTime sampleParseDuration replikaWithBadTime
     = (15000000000, Some (ParseSyncTimeError ''replika-sample''))"
    by (simp add: defaultSynchronizationTime_def)
  from inst g have "fst (fst (Reconcile 0 sampleParseDuration ?c sampleRequest)) = emptyResult"
    by blast
  then have e0: "fst (fst (Reconcile 0 sampleParseDuration ?c sampleRequest))
                   = \<lparr>Requeue = False, RequeueAfter = 0\<rparr>"
    by (simp add: emptyResult_def)
  have ut: "fst (UpdateTargets 0 ?c1 replikaWithBadTime) = None"
    by (simp add: UpdateTargets_with_bad_time)
  from r have r': "Reconcile 0 sampleParseDuration ?c sampleRequest
     = ((emptyResult, None),
        ?c\<lparr>ClusterObjects :=
             [sampleConfigMap ''default'' [''app'' \<mapsto> ''demo''],
              SetNamespace ''team-a''
                (buildTarget replikaWithBadTime
                   (sampleConfigMap ''default'' [''app'' \<mapsto> ''demo'']))],
           Calls := [GetReplikaCall ''replika'' ''replika-sample'',
                     GetCall configMapGVK ''default'' ''sample-configmap'',
                     GetCall configMapGVK ''team-a'' ''sample-configmap'',
                     CreateCall configMapGVK ''team-a'' ''sample-configmap'',
                     GetReplikaCall ''replika'' ''replika-sample'']\<rparr>)"
    by simp
  show ?thesis
    by (intro conjI) (fact p gs e0 g ts a ut r')+
qed

text \<open>
  C9 as stated fails: with the time \<^verbatim>\<open>soon\<close> the target in team-a is created, and
  \<^verbatim>\<open>Reconcile\<close> returns a directive without delay, not the default delay that
  \<^verbatim>\<open>GetSynchronizationTime\<close> computed.
\<close>

theorem Reconcile_default_delay_counterexample:
  "fst (GetSynchronizationTime sampleParseDuration replikaWithBadTime)
     = defaultSynchronizationTime
   \<and> RequeueAfter (fst (fst (Reconcile 0 sampleParseDuration
                              (clusterWithReplika replikaWithBadTime) sampleRequest)))
     \<noteq> defaultSynchronizationTime
   \<and> fst (Reconcile 0 sampleParseDuration (clusterWithReplika replikaWithBadTime) sampleRequest)
     = (\<lparr>Requeue = False, RequeueAfter = 0\<rparr>, None)
   \<and> map MetaNamespace
       (ClusterObjects (snd (Reconcile 0 sampleParseDuration
                               (clusterWithReplika replikaWithBadTime) sampleRequest)))
     = [''default'', ''team-a'']"
  unfolding Reconcile_with_bad_time
  by (simp add: emptyResult_def defaultSynchronizationTime_def
        GetSynchronizationTime_def sampleParseDuration_def replikaWithBadTime_def
        sampleReplika_def SetNamespace_def sampleConfigMap_def)

section \<open>The comparison that guards the status update\<close>

lemma differsFromStored_iff:
  "differsFromStored cond olds \<longleftrightarrow>
     (\<exists>old \<in> set olds. Type cond = Type old
        \<and> (Status cond \<noteq> Status old \<or> Reason cond \<noteq> Reason old \<or> Message cond \<noteq> Message old))"
  by (induction olds) (auto simp: Let_def)

lemma conditionsLoop_iff:
  "conditionsLoop conds olds \<longleftrightarrow> \<not> (\<exists>cond \<in> set conds. differsFromStored cond olds)"
  by (induction conds) auto

lemma objectsOnly_storesNoCondition:
  "objectsOnly c c' \<Longrightarrow> storesNoCondition c req \<Longrightarrow>
   storesNoCondition c' req
   \<and> filter isStatusUpdateCall (Calls c') = filter isStatusUpdateCall (Calls c)"
  by (simp add: objectsOnly_def storesNoCondition_def)

lemma UpdateReplika_storesNoCondition:
  "UpdateReplika c replika = (res, c') \<Longrightarrow> storesNoCondition c req \<Longrightarrow>
   storesNoCondition c' req
   \<and> filter isStatusUpdateCall (Calls c') = filter isStatusUpdateCall (Calls c)"
  by (auto simp: UpdateReplika_def request_def storesNoCondition_def Let_def
           split: prod.splits option.splits if_splits)

lemma deferredStatusUpdate_skipped:
  assumes "storesNoCondition c req"
  shows "storesNoCondition (snd (deferredStatusUpdate c req replika)) req
         \<and> filter isStatusUpdateCall (Calls (snd (deferredStatusUpdate c req replika)))
             = filter isStatusUpdateCall (Calls c)"
  using assms
  by (auto simp: deferredStatusUpdate_def SameReplikaConditions_def GetReplika_def request_def
        storesNoCondition_def conditionsLoop_iff split: prod.splits option.splits)

lemma Reconcile_storesNoCondition:
  assumes "storesNoCondition c req"
  shows "storesNoCondition (snd (Reconcile now ParseDuration c req)) req
         \<and> filter isStatusUpdateCall (Calls (snd (Reconcile now ParseDuration c req)))
             = filter isStatusUpdateCall (Calls c)"
proof -
  obtain replika err c1 where g: "GetReplika c req = ((replika, err), c1)"
    by (metis prod.exhaust)
  from objectsOnly_storesNoCondition [OF GetReplika_objectsOnly [OF g] assms]
  have s1: "storesNoCondition c1 req"
    and k1: "filter isStatusUpdateCall (Calls c1) = filter isStatusUpdateCall (Calls c)"
    by simp_all
  show ?thesis
  proof (cases err)
    case (Some x)
    with g s1 k1 show ?thesis by (simp add: Reconcile_def)
  next
    case None
    show ?thesis
    proof (cases "DeletionTimestamp replika \<noteq> None")
      case True
      show ?thesis
      proof (cases "ContainsFinalizer replika replikaFinalizer")
        case False
        with g None True s1 k1 show ?thesis by (simp add: Reconcile_def)
      next
        case fin: True
        obtain derr c2 where d: "DeleteTargets c1 replika = (derr, c2)"
          by (cases "DeleteTargets c1 replika")
        from objectsOnly_storesNoCondition [OF DeleteTargets_objectsOnly [OF d] s1] k1
        have s2: "storesNoCondition c2 req"
          and k2: "filter isStatusUpdateCall (Calls c2) = filter isStatusUpdateCall (Calls c)"
          by simp_all
        show ?thesis
        proof (cases derr)
          case (Some x)
          with g None True fin d s2 k2 show ?thesis by (simp add: Reconcile_def)
        next
          case noerr: None
          obtain res c3 where
            u: "UpdateReplika c2 (RemoveFinalizer replika replikaFinalizer) = (res, c3)"
            by (metis prod.exhaust)
          from UpdateReplika_storesNoCondition [OF u s2] k2
          have "storesNoCondition c3 req
                \<and> filter isStatusUpdateCall (Calls c3) = filter isStatusUpdateCall (Calls c)"
            by simp
          with g None True fin d noerr u show ?thesis
            by (cases res) (simp add: Reconcile_def)
        qed
      qed
    next
      case False
      obtain r2 aerr c2 where a: "attachFinalizer c1 replika = ((r2, aerr), c2)"
        by (metis prod.exhaust)
      have "storesNoCondition c2 req
            \<and> filter isStatusUpdateCall (Calls c2) = filter isStatusUpdateCall (Calls c1)"
      proof (cases "ContainsFinalizer replika replikaFinalizer")
        case True
        with a s1 show ?thesis by (simp add: attachFinalizer_def)
      next
        case nofin: False
        with a have "UpdateReplika c1 (AddFinalizer replika replikaFinalizer) = ((r2, aerr), c2)"
          by (simp add: attachFinalizer_def)
        from UpdateReplika_storesNoCondition [OF this s1] show ?thesis .
      qed
      with k1 have s2: "storesNoCondition c2 req"
        and k2: "filter isStatusUpdateCall (Calls c2) = filter isStatusUpdateCall (Calls c)"
        by simp_all
      show ?thesis
      proof (cases aerr)
        case (Some x)
        with g None False a s2 k2 show ?thesis by (simp add: Reconcile_def)
      next
        case noerr: None
        obtain result serr r3 c3 where
          s: "synchronize now ParseDuration c2 r2 = ((result, serr), r3, c3)"
          by (metis prod.exhaust)
        obtain uerr ur uc where ut: "UpdateTargets now c2 r2 = (uerr, ur, uc)"
          by (metis prod.exhaust)
        from s ut have "c3 = uc"
          by (auto simp: synchronize_def split: option.splits prod.splits)
        with UpdateTargets_objectsOnly [OF ut] have "objectsOnly c2 c3" by simp
        from objectsOnly_storesNoCondition [OF this s2] k2
        have s3: "storesNoCondition c3 req"
          and k3: "filter isStatusUpdateCall (Calls c3) = filter isStatusUpdateCall (Calls c)"
          by simp_all
        obtain derr c4 where d: "deferredStatusUpdate c3 req r3 = (derr, c4)"
          by (cases "deferredStatusUpdate c3 req r3")
        from deferredStatusUpdate_skipped [OF s3, of r3] k3 d
        have "storesNoCondition c4 req
              \<and> filter isStatusUpdateCall (Calls c4) = filter isStatusUpdateCall (Calls c)"
          by simp
        with g None False a noerr s d show ?thesis
          by (simp add: Reconcile_def)
      qed
    qed
  qed
qed

text \<open>
  C10. Once the stored Replika is loaded, \<^verbatim>\<open>SameReplikaConditions\<close> answers "equal" exactly
  when no condition in memory and stored condition of the same type differ in status,
  reason or message. So when no condition in memory has a stored condition of its type,
  the deferred function of \<^verbatim>\<open>Reconcile\<close> requests no status update; and as long as the
  stored Replika has no condition, a pass of \<^verbatim>\<open>Reconcile\<close> requests no status update and
  leaves it without condition.
\<close>

theorem SameReplikaConditions_equal_without_counterpart:
  "(GetReplika c req = ((oldReplika, None), c1) \<longrightarrow>
      SameReplikaConditions c req replika
        = ((\<not> (\<exists>cond \<in> set (Conditions (ReplikaStatus replika)).
                 \<exists>old \<in> set (Conditions (ReplikaStatus oldReplika)).
                   Type cond = Type old
                   \<and> (Status cond \<noteq> Status old \<or> Reason cond \<noteq> Reason old
                      \<or> Message cond \<noteq> Message old)), None), c1)
      \<and> ((\<forall>cond \<in> set (Conditions (ReplikaStatus replika)).
             \<forall>old \<in> set (Conditions (ReplikaStatus oldReplika)). Type cond \<noteq> Type old)
          \<longrightarrow> deferredStatusUpdate c req replika = (None, c1)))
   \<and> (storesNoCondition c req \<longrightarrow>
        storesNoCondition (snd (Reconcile now ParseDuration c req)) req
        \<and> filter isStatusUpdateCall (Calls (snd (Reconcile now ParseDuration c req)))
            = filter isStatusUpdateCall (Calls c))"
proof (intro conjI impI)
  assume g: "GetReplika c req = ((oldReplika, None), c1)"
  then show same: "SameReplikaConditions c req replika
        = ((\<not> (\<exists>cond \<in> set (Conditions (ReplikaStatus replika)).
                 \<exists>old \<in> set (Conditions (ReplikaStatus oldReplika)).
                   Type cond = Type old
                   \<and> (Status cond \<noteq> Status old \<or> Reason cond \<noteq> Reason old
                      \<or> Message cond \<noteq> Message old)), None), c1)"
    by (simp add: SameReplikaConditions_def conditionsLoop_iff differsFromStored_iff)
  assume "\<forall>cond \<in> set (Conditions (ReplikaStatus replika)).
             \<forall>old \<in> set (Conditions (ReplikaStatus oldReplika)). Type cond \<noteq> Type old"
  then have "\<not> (\<exists>cond \<in> set (Conditions (ReplikaStatus replika)).
                 \<exists>old \<in> set (Conditions (ReplikaStatus oldReplika)).
                   Type cond = Type old
                   \<and> (Status cond \<noteq> Status old \<or> Reason cond \<noteq> Reason old
                      \<or> Message cond \<noteq> Message old))"
    by blast
  with same show "deferredStatusUpdate c req replika = (None, c1)"
    by (simp add: deferredStatusUpdate_def)
next
  assume "storesNoCondition c req"
  then show "storesNoCondition (snd (Reconcile now ParseDuration c req)) req"
    and "filter isStatusUpdateCall (Calls (snd (Reconcile now ParseDuration c req)))
            = filter isStatusUpdateCall (Calls c)"
    using Reconcile_storesNoCondition by simp_all
qed

lemma Reconcile_fresh:
  "Reconcile 0 sampleParseDuration (clusterWithReplika freshReplika) sampleRequest
     = ((\<lparr>Requeue = False, RequeueAfter = 20000000000\<rparr>, None),
        clusterWithReplika freshReplika
          \<lparr>ClusterObjects :=
             [sampleConfigMap ''default'' [''app'' \<mapsto> ''demo''],
              SetNamespace ''team-a''
                (buildTarget (freshReplika\<lparr>Finalizers := [replikaFinalizer]\<rparr>)
                   (sampleConfigMap ''default'' [''app'' \<mapsto> ''demo'']))],
           ClusterReplikas :=
             [sampleRequest \<mapsto> freshReplika\<lparr>Finalizers := [replikaFinalizer]\<rparr>],
           Calls := [GetReplikaCall ''replika'' ''replika-sample'',
                     UpdateReplikaCall ''replika'' ''replika-sample'',
                     GetCall configMapGVK ''default'' ''sample-configmap'',
                     GetCall configMapGVK ''team-a'' ''sample-configmap'',
                     CreateCall configMapGVK ''team-a'' ''sample-configmap'',
                     GetReplikaCall ''replika'' ''replika-sample'']\<rparr>)"
  by (simp add: Reconcile_def GetReplika_def request_def clusterWithReplika_def
        sampleCluster_def sampleRequest_def freshReplika_def sampleReplika_def
        attachFinalizer_def ContainsFinalizer_def AddFinalizer_def UpdateReplika_def Let_def
        replikaFinalizer_def synchronize_def
        UpdateTargets_def BuildTargets_def GetSource_def Get_def sourceGVK_def
        emptyUnstructured_def sameObject_def sampleConfigMap_def GetNamespaces_def
        lowerAlnum_def dashLowerAlnum_def UpdateTarget_def Create_def fourNamespaces_def
        SetNamespace_def buildTarget_def SetLabels_def SetAnnotations_def SetName_def
        RemoveStatus_def RemoveMetadata_def GetSynchronizationTime_def
        sampleParseDuration_def deferredStatusUpdate_def SameReplikaConditions_def
        UpdateReplikaCondition_def GetReplikaCondition_def sourceSyncedCondition_def
        NewReplikaCondition_def configMapGVK_def)

theorem SameReplikaConditions_equal_without_counterpart_witness:
  "GetReplika (clusterWithReplika freshReplika) sampleRequest
     = ((freshReplika, None),
        clusterWithReplika freshReplika\<lparr>Calls := [GetReplikaCall ''replika'' ''replika-sample'']\<rparr>)
   \<and> map Type (Conditions (ReplikaStatus
                   (UpdateReplikaCondition 0 freshReplika (sourceSyncedCondition 0))))
     = [''SourceSynced'']
   \<and> Conditions (ReplikaStatus freshReplika) = []
   \<and> SameReplikaConditions (clusterWithReplika freshReplika) sampleRequest
       (UpdateReplikaCondition 0 freshReplika (sourceSyncedCondition 0))
     = ((True, None),
        clusterWithReplika freshReplika\<lparr>Calls := [GetReplikaCall ''replika'' ''replika-sample'']\<rparr>)
   \<and> deferredStatusUpdate (clusterWithReplika freshReplika) sampleRequest
       (UpdateReplikaCondition 0 freshReplika (sourceSyncedCondition 0))
     = (None,
        clusterWithReplika freshReplika\<lparr>Calls := [GetReplikaCall ''replika'' ''replika-sample'']\<rparr>)
   \<and> storesNoCondition (clusterWithReplika freshReplika) sampleRequest
   \<and> storesNoCondition
       (snd (Reconcile 0 sampleParseDuration (clusterWithReplika freshReplika) sampleRequest))
       sampleRequest
   \<and> filter isStatusUpdateCall
       (Calls (snd (Reconcile 0 sampleParseDuration (clusterWithReplika freshReplika)
                      sampleRequest)))
     = []
   \<and> fst (Reconcile 0 sampleParseDuration (clusterWithReplika freshReplika) sampleRequest)
     = (\<lparr>Requeue = False, RequeueAfter = 20000000000\<rparr>, None)"
proof -
  let ?c = "clusterWithReplika freshReplika"
  let ?c1 = "?c\<lparr>Calls := [GetReplikaCall ''replika'' ''replika-sample'']\<rparr>"
  let ?mem = "UpdateReplikaCondition 0 freshReplika (sourceSyncedCondition 0)"
  have g: "GetReplika ?c sampleRequest = ((freshReplika, None), ?c1)"
    by (simp add: GetReplika_def request_def clusterWithReplika_def sampleCluster_def
          sampleRequest_def)
  have old: "Conditions (ReplikaStatus freshReplika) = []"
    by (simp add: freshReplika_def sampleReplika_def)
  have mem: "map Type (Conditions (ReplikaStatus ?mem)) = [''SourceSynced'']"
    by (simp add: UpdateReplikaCondition_def GetReplikaCondition_def old
          sourceSyncedCondition_def NewReplikaCondition_def ConditionTypeSourceSynced_def)
  have none: "storesNoCondition ?c sampleRequest"
    by (simp add: storesNoCondition_def clusterWithReplika_def sampleCluster_def old)
  have calls: "Calls ?c = []"
    by (simp add: clusterWithReplika_def sampleCluster_def)
  note inst = SameReplikaConditions_equal_without_counterpart
               [of ?c sampleRequest freshReplika ?c1 ?mem 0 sampleParseDuration]
  from inst g old have "SameReplikaConditions ?c sampleRequest ?mem = ((True, None), ?c1)"
    by simp
  moreover from inst g old
  have "deferredStatusUpdate ?c sampleRequest ?mem = (None, ?c1)"
    by simp
  moreover from inst none calls
  have "storesNoCondition (snd (Reconcile 0 sampleParseDuration ?c sampleRequest)) sampleRequest"
    and "filter isStatusUpdateCall
           (Calls (snd (Reconcile 0 sampleParseDuration ?c sampleRequest))) = []"
    by simp_all
  moreover have "fst (Reconcile 0 sampleParseDuration ?c sampleRequest)
     = (\<lparr>Requeue = False, RequeueAfter = 20000000000\<rparr>, None)"
    by (simp add: Reconcile_fresh)
  ultimately show ?thesis
    using g old mem none by simp
qed

end
